theory Spec2Isabelle
  imports Complex_Main "HOL-Library.Log_Nat" "HOL-Library.Word"
begin

section \<open>The stock simulator of \<^verbatim>\<open>src/main.cpp\<close>\<close>

text \<open>
  The program is a console simulator: a market of stocks whose prices move by a bounded
  random step once per simulated day, and a portfolio that buys and sells shares against
  a cash balance. The embedding follows the classes of namespace \<^verbatim>\<open>StockSim\<close>.

  Conventions of the embedding.
  \<^item> A C++ \<^verbatim>\<open>double\<close> (prices, balance) is a value of the type \<open>double\<close> below: a
    binary64 number of IEEE 754, an infinity or NaN. Every operation rounds its exact
    result to the nearest double, ties to even, as the hardware does: each operation of
    an expression is rounded on its own, with no wider intermediate format and no fused
    multiply-add (the arithmetic of SSE2 on x86-64, the default of the usual compilers).
  \<^item> A C++ \<^verbatim>\<open>int\<close> (quantities) is a 32-bit word, read as a signed number by \<open>sint\<close>.
    Addition and subtraction wrap around modulo \<open>2 ^ 32\<close>: the C++ standard leaves
    signed overflow undefined, and the wrap is what the compiled program does.
  \<^item> The class hierarchy \<^verbatim>\<open>Stock\<close>, \<^verbatim>\<open>SimulatedStock\<close>, \<^verbatim>\<open>UserOwnedStock\<close> is a chain
    of record extensions, so a function on a \<^verbatim>\<open>SimulatedStock\<close> also applies to a
    \<^verbatim>\<open>UserOwnedStock\<close>, as the inherited member does.
  \<^item> The portfolio owns its positions through pointers to objects that nothing else
    refers to (each is created by \<^verbatim>\<open>new\<close> inside \<^verbatim>\<open>buyStock\<close>), so the vector of
    pointers is a list of values.
  \<^item> A member function that mutates its object takes the object and returns the new one.
    A function that may write a diagnostic to \<^verbatim>\<open>cout\<close> also returns the list of the
    messages it wrote, in order. Prompts and the tabular \<^verbatim>\<open>display\<close> output are not
    part of the model.
  \<^item> \<^verbatim>\<open>rand()\<close> is a parameter: the value it returned, a natural number (the C library
    returns an \<^verbatim>\<open>int\<close> between 0 and \<^verbatim>\<open>RAND_MAX\<close>).
\<close>

subsection \<open>Machine numbers\<close>

type_synonym int32 = "32 word"

text \<open>
  A double is a real number that binary64 represents, \<open>+\<infinity>\<close>, \<open>-\<infinity>\<close> or NaN. The two
  zeros of binary64 are one value here: they compare equal, and the program has no
  operation that tells them apart (it divides by the constant \<^verbatim>\<open>100.0\<close> only).
\<close>

datatype double = Finite real | PosInf | NegInf | NaN

text \<open>\<open>pow2 k\<close> is \<open>2\<close> to the power \<open>k\<close>, for an integer \<open>k\<close> of either sign.\<close>

definition pow2 :: "int \<Rightarrow> real" where
  "pow2 k = (if 0 \<le> k then 2 ^ nat k else 1 / 2 ^ nat (- k))"

text \<open>
  The binary exponent of a positive number \<open>x\<close>: the integer \<open>e\<close> with
  \<open>2 ^ e \<le> x < 2 ^ (e + 1)\<close> (\<open>ilog2_bounds\<close> below), computed from the bit length
  of the integer part of \<open>x\<close> or of \<open>1 / x\<close>.
\<close>

definition ilog2 :: "real \<Rightarrow> int" where
  "ilog2 x = (if 1 \<le> x then bitlen \<lfloor>x\<rfloor> - 1 else - bitlen (\<lceil>1 / x\<rceil> - 1))"

text \<open>The nearest integer, a tie going to the even one.\<close>

definition round_half_even :: "real \<Rightarrow> int" where
  "round_half_even x =
     (let f = \<lfloor>x\<rfloor>; d = x - of_int f
      in if d < 1 / 2 then f else if 1 / 2 < d then f + 1 else if even f then f else f + 1)"

text \<open>
  Rounding of an exact result to binary64, to nearest, ties to even. A number of binary
  exponent \<open>e\<close> is rounded to a multiple of \<open>2 ^ (e - 52)\<close> (53 significant bits); below
  the normal range, to a multiple of \<open>2 ^ - 1074\<close> (the subnormal numbers). A rounded
  magnitude of \<open>2 ^ 1024\<close> or more is an overflow, which gives an infinity.
\<close>

definition round_double :: "real \<Rightarrow> double" where
  "round_double x =
     (if x = 0 then Finite 0
      else
        (let e = ilog2 \<bar>x\<bar>;
             q = pow2 (max e (- 1022) - 52);
             y = of_int (round_half_even (x / q)) * q
         in if pow2 1024 \<le> \<bar>y\<bar> then (if 0 < x then PosInf else NegInf) else Finite y))"

text \<open>A decimal literal of the source, such as \<^verbatim>\<open>0.2\<close>, is the double nearest to it.\<close>

definition dlit :: "real \<Rightarrow> double" where
  "dlit x = round_double x"

text \<open>
  The conversion of an \<^verbatim>\<open>int\<close> to \<^verbatim>\<open>double\<close>. It is exact: an \<^verbatim>\<open>int\<close> has at most 32
  significant bits.
\<close>

definition double_of_int :: "int \<Rightarrow> double" where
  "double_of_int n = Finite (of_int n)"

text \<open>The arithmetic of binary64: negation, \<^verbatim>\<open>+\<close>, \<^verbatim>\<open>-\<close>, \<^verbatim>\<open>*\<close> and \<^verbatim>\<open>/\<close>.\<close>

fun dneg :: "double \<Rightarrow> double" where
  "dneg (Finite x) = Finite (- x)"
| "dneg PosInf = NegInf"
| "dneg NegInf = PosInf"
| "dneg NaN = NaN"

fun dadd :: "double \<Rightarrow> double \<Rightarrow> double" where
  "dadd (Finite x) (Finite y) = round_double (x + y)"
| "dadd (Finite x) PosInf = PosInf"
| "dadd (Finite x) NegInf = NegInf"
| "dadd PosInf (Finite y) = PosInf"
| "dadd PosInf PosInf = PosInf"
| "dadd NegInf (Finite y) = NegInf"
| "dadd NegInf NegInf = NegInf"
| "dadd PosInf NegInf = NaN"
| "dadd NegInf PosInf = NaN"
| "dadd NaN b = NaN"
| "dadd a NaN = NaN"

definition dsub :: "double \<Rightarrow> double \<Rightarrow> double" where
  "dsub a b = dadd a (dneg b)"

text \<open>The infinity of the sign of \<open>x\<close>, for \<open>x\<close> other than 0.\<close>

definition inf_of_sign :: "real \<Rightarrow> double" where
  "inf_of_sign x = (if 0 < x then PosInf else NegInf)"

fun dmul :: "double \<Rightarrow> double \<Rightarrow> double" where
  "dmul (Finite x) (Finite y) = round_double (x * y)"
| "dmul (Finite x) PosInf = (if x = 0 then NaN else inf_of_sign x)"
| "dmul (Finite x) NegInf = (if x = 0 then NaN else inf_of_sign (- x))"
| "dmul PosInf (Finite y) = (if y = 0 then NaN else inf_of_sign y)"
| "dmul NegInf (Finite y) = (if y = 0 then NaN else inf_of_sign (- y))"
| "dmul PosInf PosInf = PosInf"
| "dmul PosInf NegInf = NegInf"
| "dmul NegInf PosInf = NegInf"
| "dmul NegInf NegInf = PosInf"
| "dmul NaN b = NaN"
| "dmul a NaN = NaN"

text \<open>
  Division. The quotient of a number other than 0 by 0 is an infinity whose sign
  depends on the sign of the zero, which the model does not keep: it takes the zero as
  positive. The program divides by \<^verbatim>\<open>100.0\<close> only.
\<close>

fun ddiv :: "double \<Rightarrow> double \<Rightarrow> double" where
  "ddiv (Finite x) (Finite y) =
     (if y = 0 then (if x = 0 then NaN else inf_of_sign x) else round_double (x / y))"
| "ddiv (Finite x) PosInf = Finite 0"
| "ddiv (Finite x) NegInf = Finite 0"
| "ddiv PosInf (Finite y) = (if 0 \<le> y then PosInf else NegInf)"
| "ddiv NegInf (Finite y) = (if 0 \<le> y then NegInf else PosInf)"
| "ddiv PosInf PosInf = NaN"
| "ddiv PosInf NegInf = NaN"
| "ddiv NegInf PosInf = NaN"
| "ddiv NegInf NegInf = NaN"
| "ddiv NaN b = NaN"
| "ddiv a NaN = NaN"

text \<open>
  The comparisons \<^verbatim>\<open><\<close> and \<^verbatim>\<open><=\<close>, and \<^verbatim>\<open>>\<close> and \<^verbatim>\<open>>=\<close> by exchange of the
  operands. A comparison with NaN is false.
\<close>

fun dlt :: "double \<Rightarrow> double \<Rightarrow> bool" where
  "dlt (Finite x) (Finite y) = (x < y)"
| "dlt (Finite x) PosInf = True"
| "dlt NegInf (Finite y) = True"
| "dlt NegInf PosInf = True"
| "dlt a b = False"

fun dle :: "double \<Rightarrow> double \<Rightarrow> bool" where
  "dle (Finite x) (Finite y) = (x \<le> y)"
| "dle (Finite x) PosInf = True"
| "dle NegInf (Finite y) = True"
| "dle NegInf PosInf = True"
| "dle PosInf PosInf = True"
| "dle NegInf NegInf = True"
| "dle a b = False"

definition dgt :: "double \<Rightarrow> double \<Rightarrow> bool" where
  "dgt a b = dlt b a"

definition dge :: "double \<Rightarrow> double \<Rightarrow> bool" where
  "dge a b = dle b a"

subsection \<open>Stocks\<close>

text \<open>Class \<^verbatim>\<open>Stock\<close>. The field \<^verbatim>\<open>id\<close> is \<open>id'\<close> here (\<open>id\<close> is the identity of HOL).\<close>

record Stock =
  id' :: int32
  name :: string
  currentPrice :: double
  riskLevel :: string

text \<open>Class \<^verbatim>\<open>SimulatedStock : public Stock\<close>.\<close>

record SimulatedStock = Stock +
  priceHistory :: "double list"

text \<open>Class \<^verbatim>\<open>UserOwnedStock : public SimulatedStock\<close>.\<close>

record UserOwnedStock = SimulatedStock +
  quantity :: int32

text \<open>
  The constructor of \<^verbatim>\<open>SimulatedStock\<close> (lines 50-53): the base fields, and the history
  seeded with the initial price.
\<close>

definition SimulatedStock_new :: "int32 \<Rightarrow> string \<Rightarrow> double \<Rightarrow> string \<Rightarrow> SimulatedStock" where
  "SimulatedStock_new i n price risk =
     \<lparr>id' = i, name = n, currentPrice = price, riskLevel = risk, priceHistory = [price]\<rparr>"

text \<open>
  \<^verbatim>\<open>SimulatedStock::updatePrice\<close> (lines 55-61). \<open>rv\<close> is the value of the call of
  \<^verbatim>\<open>rand()\<close>. \<^verbatim>\<open>rand() % 201\<close> is on a non-negative \<^verbatim>\<open>int\<close>, where the remainder of
  C++ is \<open>mod\<close>; the subtraction of 100 is on \<^verbatim>\<open>int\<close> and stays between \<open>- 100\<close> and
  100; the division by \<^verbatim>\<open>100.0\<close> and the two products are on \<^verbatim>\<open>double\<close>, from left to
  right. In \<^verbatim>\<open>currentPrice < 1\<close> and \<^verbatim>\<open>currentPrice = 1\<close> the \<^verbatim>\<open>int\<close> 1 is converted.
\<close>

definition volatility_of :: "string \<Rightarrow> double" where
  "volatility_of risk =
     (if risk = ''High'' then dlit 0.2 else if risk = ''Medium'' then dlit 0.1 else dlit 0.05)"

definition updatePrice :: "nat \<Rightarrow> 'a SimulatedStock_scheme \<Rightarrow> 'a SimulatedStock_scheme" where
  "updatePrice rv s =
     (let volatility = volatility_of (riskLevel s);
          change = dmul (dmul (ddiv (double_of_int (int (rv mod 201) - 100)) (dlit 100))
                              volatility)
                        (currentPrice s);
          p1 = dadd (currentPrice s) change;
          p2 = (if dlt p1 (double_of_int 1) then double_of_int 1 else p1)
      in s\<lparr>currentPrice := p2, priceHistory := priceHistory s @ [p2]\<rparr>)"

text \<open>
  The constructor of \<^verbatim>\<open>UserOwnedStock\<close> (lines 76-77): a copy of the base fields of
  \<open>base\<close> through its getters, a fresh history seeded with the price of \<open>base\<close> (the
  constructor of \<^verbatim>\<open>SimulatedStock\<close> runs), and the quantity.
\<close>

definition UserOwnedStock_new :: "'a SimulatedStock_scheme \<Rightarrow> int32 \<Rightarrow> UserOwnedStock" where
  "UserOwnedStock_new base qty =
     SimulatedStock.extend
       (SimulatedStock_new (id' base) (name base) (currentPrice base) (riskLevel base))
       (UserOwnedStock.fields qty)"

definition getTotalValue :: "UserOwnedStock \<Rightarrow> double" where
  "getTotalValue s = dmul (double_of_int (sint (quantity s))) (currentPrice s)"

definition buy :: "UserOwnedStock \<Rightarrow> int32 \<Rightarrow> UserOwnedStock" where
  "buy s qty = s\<lparr>quantity := quantity s + qty\<rparr>"

text \<open>The line feed that ends every message.\<close>

definition endl :: string where
  "endl = [CHR 0x0A]"

definition sell :: "UserOwnedStock \<Rightarrow> int32 \<Rightarrow> UserOwnedStock \<times> string list" where
  "sell s qty =
     (if sint qty \<le> sint (quantity s) then (s\<lparr>quantity := quantity s - qty\<rparr>, [])
      else (s, [''Not enough stock to sell.'' @ endl]))"

subsection \<open>The portfolio\<close>

text \<open>Class \<^verbatim>\<open>UserPortfolio\<close>: the cash balance and the owned positions, in vector order.\<close>

record UserPortfolio =
  balance :: double
  ownedStocks :: "UserOwnedStock list"

text \<open>The constructor; \<^verbatim>\<open>main\<close> uses the default initial balance, 3000.0.\<close>

definition UserPortfolio_new :: "double \<Rightarrow> UserPortfolio" where
  "UserPortfolio_new initialBalance = \<lparr>balance = initialBalance, ownedStocks = []\<rparr>"

definition getBalance :: "UserPortfolio \<Rightarrow> double" where
  "getBalance up = balance up"

text \<open>
  The loop of \<^verbatim>\<open>buyStock\<close> (lines 127-132): the first position whose name is that of
  the stock gets the quantity added, and the function returns. \<open>None\<close> is the loop
  running to its end without a match.
\<close>

fun buyStock_loop :: "UserOwnedStock list \<Rightarrow> string \<Rightarrow> int32 \<Rightarrow> UserOwnedStock list option" where
  "buyStock_loop [] n qty = None"
| "buyStock_loop (stock # rest) n qty =
     (if name stock = n then Some (buy stock qty # rest)
      else map_option ((#) stock) (buyStock_loop rest n qty))"

text \<open>
  \<^verbatim>\<open>UserPortfolio::buyStock\<close> (lines 119-134). The total is the product of the price and
  the converted quantity, in \<^verbatim>\<open>double\<close>. The balance is debited before the loop, and a
  stock that no position matches is appended as a new position.
\<close>

definition buyStock ::
  "UserPortfolio \<Rightarrow> 'a SimulatedStock_scheme \<Rightarrow> int32 \<Rightarrow> UserPortfolio \<times> string list" where
  "buyStock up s qty =
     (let total = dmul (currentPrice s) (double_of_int (sint qty)) in
      if dgt total (balance up) then (up, [''Insufficient balance.'' @ endl])
      else
        (let up1 = up\<lparr>balance := dsub (balance up) total\<rparr> in
         case buyStock_loop (ownedStocks up1) (name s) qty of
           Some stocks \<Rightarrow> (up1\<lparr>ownedStocks := stocks\<rparr>, [])
         | None \<Rightarrow> (up1\<lparr>ownedStocks := ownedStocks up1 @ [UserOwnedStock_new s qty]\<rparr>, [])))"

text \<open>\<^verbatim>\<open>vector::erase(begin() + i)\<close>, for an index inside the vector.\<close>

definition erase :: "'a list \<Rightarrow> nat \<Rightarrow> 'a list" where
  "erase v i = take i v @ drop (Suc i) v"

text \<open>
  The loop of \<^verbatim>\<open>sellStock\<close> (lines 137-153), from index \<open>i\<close> on. Every read of
  \<^verbatim>\<open>ownedStocks[i]\<close> is under the loop condition \<^verbatim>\<open>i < ownedStocks.size()\<close>. The
  comparison of the quantities is on \<^verbatim>\<open>int\<close>, the income and the credit on \<^verbatim>\<open>double\<close>.
\<close>

function sellStock_loop ::
  "UserPortfolio \<Rightarrow> string \<Rightarrow> int32 \<Rightarrow> nat \<Rightarrow> UserPortfolio \<times> string list" where
  "sellStock_loop up stockName qty i =
     (if i < length (ownedStocks up) then
        (if name (ownedStocks up ! i) = stockName then
           (if sint (quantity (ownedStocks up ! i)) \<ge> sint qty then
              (let income = dmul (double_of_int (sint qty)) (currentPrice (ownedStocks up ! i));
                   (stock, out) = sell (ownedStocks up ! i) qty;
                   up1 = up\<lparr>ownedStocks := (ownedStocks up)[i := stock]\<rparr>;
                   up2 = up1\<lparr>balance := dadd (balance up1) income\<rparr>;
                   up3 = (if quantity (ownedStocks up2 ! i) = 0
                          then up2\<lparr>ownedStocks := erase (ownedStocks up2) i\<rparr>
                          else up2)
               in (up3, out))
            else (up, [''Not enough quantity.'' @ endl]))
         else sellStock_loop up stockName qty (Suc i))
      else (up, [''Stock not found in portfolio.'' @ endl]))"
  by pat_completeness auto
termination
  by (relation "measure (\<lambda>(up, stockName, qty, i). length (ownedStocks up) - i)") auto

declare sellStock_loop.simps [simp del]

text \<open>\<^verbatim>\<open>UserPortfolio::sellStock\<close> (lines 136-155).\<close>

definition sellStock :: "UserPortfolio \<Rightarrow> string \<Rightarrow> int32 \<Rightarrow> UserPortfolio \<times> string list" where
  "sellStock up stockName qty = sellStock_loop up stockName qty 0"

text \<open>
  \<^verbatim>\<open>UserPortfolio::updatePrices\<close> (lines 157-160): \<^verbatim>\<open>updatePrice\<close> on every position in
  vector order. \<open>rnd k\<close> is the value of the \<open>k\<close>-th call of \<^verbatim>\<open>rand()\<close> made during
  the call, counted from 0.
\<close>

fun updatePrices_loop :: "(nat \<Rightarrow> nat) \<Rightarrow> nat \<Rightarrow> UserOwnedStock list \<Rightarrow> UserOwnedStock list" where
  "updatePrices_loop rnd k [] = []"
| "updatePrices_loop rnd k (stock # rest) =
     updatePrice (rnd k) stock # updatePrices_loop rnd (Suc k) rest"

definition updatePrices :: "(nat \<Rightarrow> nat) \<Rightarrow> UserPortfolio \<Rightarrow> UserPortfolio" where
  "updatePrices rnd up = up\<lparr>ownedStocks := updatePrices_loop rnd 0 (ownedStocks up)\<rparr>"

text \<open>
  The calls a client of \<^verbatim>\<open>UserPortfolio\<close> can make that change it, and a run of them
  from a portfolio. The fields are private, so the states a portfolio can be in are the
  ones a run reaches from a newly constructed portfolio.
\<close>

datatype operation =
  BuyStock SimulatedStock int32
| SellStock string int32
| UpdatePrices "nat \<Rightarrow> nat"

fun apply_operation :: "UserPortfolio \<Rightarrow> operation \<Rightarrow> UserPortfolio" where
  "apply_operation up (BuyStock s qty) = fst (buyStock up s qty)"
| "apply_operation up (SellStock stockName qty) = fst (sellStock up stockName qty)"
| "apply_operation up (UpdatePrices rnd) = updatePrices rnd up"

definition run :: "UserPortfolio \<Rightarrow> operation list \<Rightarrow> UserPortfolio" where
  "run up ops = foldl apply_operation up ops"

subsection \<open>The menu of \<^verbatim>\<open>main\<close>\<close>

text \<open>
  The market that \<^verbatim>\<open>main\<close> creates (lines 176-186). Its prices are whole numbers, which
  are doubles.
\<close>

definition market0 :: "SimulatedStock list" where
  "market0 =
     [SimulatedStock_new 1 ''Apple'' (Finite 211) ''Medium'',
      SimulatedStock_new 2 ''Google'' (Finite 165) ''Medium'',
      SimulatedStock_new 3 ''Amazon'' (Finite 205) ''High'',
      SimulatedStock_new 4 ''McDonald's'' (Finite 314) ''Low'',
      SimulatedStock_new 5 ''UnitedHealth'' (Finite 60) ''Low'',
      SimulatedStock_new 6 ''Tesla'' (Finite 342) ''High'',
      SimulatedStock_new 7 ''NVDA'' (Finite 134) ''High'',
      SimulatedStock_new 8 ''Microsoft'' (Finite 453) ''Medium'',
      SimulatedStock_new 9 ''META'' (Finite 643) ''High'']"

text \<open>
  The range of \<^verbatim>\<open>int\<close> (32 bits), and the conversion of an \<^verbatim>\<open>int\<close> to \<^verbatim>\<open>size_t\<close>
  (64 bits, unsigned): the value modulo \<open>2 ^ 64\<close>. The comparison
  \<^verbatim>\<open>id <= market.size()\<close> and the subscript \<^verbatim>\<open>market[id - 1]\<close> convert so. A
  negative \<^verbatim>\<open>int\<close> becomes a large \<^verbatim>\<open>size_t\<close>, which is why the order of the two
  comparisons of the branch matters.
\<close>

definition is_int :: "int \<Rightarrow> bool" where
  "is_int x = (- (2 ^ 31) \<le> x \<and> x < 2 ^ 31)"

definition to_size_t :: "int \<Rightarrow> nat" where
  "to_size_t x = nat (x mod 2 ^ 64)"

text \<open>
  \<^verbatim>\<open>vector::operator[]\<close>: the element, where the index is inside the vector. Outside
  it the behaviour is undefined; \<open>None\<close> stands for that.
\<close>

definition vector_at :: "'a list \<Rightarrow> nat \<Rightarrow> 'a option" where
  "vector_at v i = (if i < length v then Some (v ! i) else None)"

text \<open>
  The branch \<^verbatim>\<open>case 2\<close> of the menu (lines 209-225), after \<open>id\<close> and \<open>qty\<close> have been
  read; \<open>ident\<close> is the value of \<open>id\<close>, an integer in the range of \<^verbatim>\<open>int\<close>. In
  \<^verbatim>\<open>id >= 1 && id <= market.size()\<close> the second comparison is evaluated only
  when the first holds. The result is \<open>None\<close> when the branch reads the market outside
  its bounds. Otherwise it is the portfolio, the messages written, and the list of the
  indices at which the branch subscripted the market (a record of the reads, which the
  program itself does not keep).
\<close>

definition main_case2 ::
  "SimulatedStock list \<Rightarrow> UserPortfolio \<Rightarrow> int \<Rightarrow> int32
     \<Rightarrow> (UserPortfolio \<times> string list \<times> nat list) option" where
  "main_case2 market user ident qty =
     (if ident \<ge> 1 \<and> to_size_t ident \<le> length market then
        (case vector_at market (to_size_t (ident - 1)) of
           None \<Rightarrow> None
         | Some s \<Rightarrow>
             (let (user1, out) = buyStock user s qty
              in Some (user1, out, [to_size_t (ident - 1)])))
      else Some (user, [''Invalid ID.'' @ endl], []))"

section \<open>Auxiliary facts\<close>

subsection \<open>Rounding to binary64\<close>

lemma pow2_pos: "0 < pow2 k"
  by (simp add: pow2_def)

lemma pow2_powi: "pow2 k = 2 powi k"
  by (simp add: pow2_def power_int_def inverse_eq_divide power_one_over)

lemma pow2_add: "pow2 (a + b) = pow2 a * pow2 b"
  by (simp add: pow2_powi power_int_add)

lemma pow2_mono: "a \<le> b \<Longrightarrow> pow2 a \<le> pow2 b"
  by (simp add: pow2_powi power_int_increasing)

lemma pow2_strict_mono: "a < b \<Longrightarrow> pow2 a < pow2 b"
  by (simp add: pow2_powi power_int_strict_increasing)

lemma pow2_nat: "pow2 (int n) = 2 ^ n"
  by (simp add: pow2_def)

lemma ilog2_bounds:
  assumes "0 < x"
  shows "pow2 (ilog2 x) \<le> x \<and> x < pow2 (ilog2 x + 1)"
proof (cases "1 \<le> x")
  case True
  define n where "n = \<lfloor>x\<rfloor>"
  have n: "0 < n" using True by (simp add: n_def)
  from bitlen_bounds [OF n] have lo: "2 ^ nat (bitlen n - 1) \<le> n" and hi: "n < 2 ^ nat (bitlen n)"
    by simp_all
  have b1: "1 \<le> bitlen n" using n bitlen_eq_zero_iff [of n] bitlen_nonneg [of n] by linarith
  have e: "ilog2 x = bitlen n - 1" using True by (simp add: ilog2_def n_def)
  have "pow2 (bitlen n - 1) = of_int (2 ^ nat (bitlen n - 1))" using b1 by (simp add: pow2_def)
  also have "\<dots> \<le> of_int n" using lo by (simp only: of_int_le_iff)
  also have "\<dots> \<le> x" by (simp add: n_def)
  finally have A: "pow2 (ilog2 x) \<le> x" by (simp add: e)
  have "n + 1 \<le> 2 ^ nat (bitlen n)" using hi by simp
  then have "(of_int (n + 1) :: real) \<le> of_int (2 ^ nat (bitlen n))" by (simp only: of_int_le_iff)
  moreover have "x < of_int (n + 1)" using floor_correct [of x] by (simp add: n_def)
  moreover have "pow2 (bitlen n) = of_int (2 ^ nat (bitlen n))" using b1 by (simp add: pow2_def)
  ultimately have B: "x < pow2 (ilog2 x + 1)" by (simp add: e)
  from A B show ?thesis ..
next
  case False
  then have x1: "x < 1" by simp
  define y where "y = 1 / x"
  have y1: "1 < y" using assms x1 by (simp add: y_def)
  define k where "k = \<lceil>y\<rceil> - 1"
  have k: "0 < k" using y1 by (simp add: k_def)
  from bitlen_bounds [OF k] have lo: "2 ^ nat (bitlen k - 1) \<le> k" and hi: "k < 2 ^ nat (bitlen k)"
    by simp_all
  have b1: "1 \<le> bitlen k" using k bitlen_eq_zero_iff [of k] bitlen_nonneg [of k] by linarith
  have e: "ilog2 x = - bitlen k" using False by (simp add: ilog2_def k_def y_def)
  have ky: "of_int k < y" "y \<le> of_int k + 1"
    using ceiling_correct [of y] by (simp_all add: k_def)
  have "k + 1 \<le> 2 ^ nat (bitlen k)" using hi by simp
  then have "(of_int (k + 1) :: real) \<le> of_int (2 ^ nat (bitlen k))" by (simp only: of_int_le_iff)
  also have "\<dots> = 2 ^ nat (bitlen k)" by simp
  finally have "of_int k + 1 \<le> (2 :: real) ^ nat (bitlen k)" by simp
  with ky(2) have yhi: "y \<le> 2 ^ nat (bitlen k)" by linarith
  have "(2 :: real) ^ nat (bitlen k - 1) = of_int (2 ^ nat (bitlen k - 1))" by simp
  also have "\<dots> \<le> of_int k" using lo by (simp only: of_int_le_iff)
  also have "\<dots> < y" by (rule ky(1))
  finally have ylo: "2 ^ nat (bitlen k - 1) < y" .
  have p: "pow2 (- bitlen k) = 1 / 2 ^ nat (bitlen k)" using b1 by (simp add: pow2_def)
  have "1 / 2 ^ nat (bitlen k) \<le> 1 / y" using yhi y1 by (simp add: frac_le)
  then have A: "pow2 (ilog2 x) \<le> x" using assms by (simp add: e p y_def)
  have p': "pow2 (- bitlen k + 1) = 1 / 2 ^ nat (bitlen k - 1)"
  proof (cases "bitlen k = 1")
    case True
    then show ?thesis by (simp add: pow2_def)
  next
    case False
    with b1 have "- bitlen k + 1 < 0" "nat (- (- bitlen k + 1)) = nat (bitlen k - 1)" by simp_all
    then show ?thesis by (simp add: pow2_def)
  qed
  have "1 / y < 1 / 2 ^ nat (bitlen k - 1)" using ylo by (simp add: frac_less2)
  then have "x < 1 / 2 ^ nat (bitlen k - 1)" using assms by (simp add: y_def)
  then have "x < pow2 (- bitlen k + 1)" by (simp only: p')
  then have B: "x < pow2 (ilog2 x + 1)" by (simp only: e)
  from A B show ?thesis ..
qed

lemma ilog2_unique:
  assumes "pow2 e \<le> x" and "x < pow2 (e + 1)"
  shows "ilog2 x = e"
proof -
  have pos: "0 < x" using assms(1) pow2_pos [of e] by simp
  from ilog2_bounds [OF pos] have a: "pow2 (ilog2 x) \<le> x" and b: "x < pow2 (ilog2 x + 1)" by simp_all
  have "\<not> ilog2 x < e"
  proof
    assume "ilog2 x < e"
    then have "pow2 (ilog2 x + 1) \<le> pow2 e" by (intro pow2_mono) simp
    with b assms(1) show False by simp
  qed
  moreover have "\<not> e < ilog2 x"
  proof
    assume "e < ilog2 x"
    then have "pow2 (e + 1) \<le> pow2 (ilog2 x)" by (intro pow2_mono) simp
    with a assms(2) show False by simp
  qed
  ultimately show ?thesis by simp
qed

lemma round_half_even_of_int: "round_half_even (of_int n) = n"
  by (simp add: round_half_even_def)

lemma round_half_even_bounds: "\<lfloor>x\<rfloor> \<le> round_half_even x \<and> round_half_even x \<le> \<lceil>x\<rceil>"
proof -
  have "x - of_int \<lfloor>x\<rfloor> > 0 \<Longrightarrow> \<lceil>x\<rceil> = \<lfloor>x\<rfloor> + 1"
    by (simp add: ceiling_altdef)
  moreover have "\<lfloor>x\<rfloor> \<le> \<lceil>x\<rceil>" by (rule floor_le_ceiling)
  ultimately show ?thesis
    by (auto simp: round_half_even_def Let_def)
qed

lemma round_double_eval:
  assumes "pow2 e \<le> \<bar>x\<bar>" and "\<bar>x\<bar> < pow2 (e + 1)"
  shows "round_double x =
     (let q = pow2 (max e (- 1022) - 52);
          y = of_int (round_half_even (x / q)) * q
      in if pow2 1024 \<le> \<bar>y\<bar> then (if 0 < x then PosInf else NegInf) else Finite y)"
proof -
  have "x \<noteq> 0" using assms(1) pow2_pos [of e] by auto
  moreover have "ilog2 \<bar>x\<bar> = e" using assms by (rule ilog2_unique)
  ultimately show ?thesis by (simp add: round_double_def)
qed

lemma round_double_exact:
  assumes x: "x = of_int m * pow2 k" and m: "\<bar>m\<bar> < 2 ^ 53" and k: "- 1074 \<le> k"
    and fin: "\<bar>x\<bar> < pow2 1024"
  shows "round_double x = Finite x"
proof (cases "x = 0")
  case True
  then show ?thesis by (simp add: round_double_def)
next
  case False
  define e where "e = ilog2 \<bar>x\<bar>"
  define j where "j = max e (- 1022) - 52"
  have pos: "0 < \<bar>x\<bar>" using False by simp
  have "pow2 e \<le> \<bar>x\<bar>" using ilog2_bounds [OF pos] by (simp add: e_def)
  also have "\<bar>x\<bar> = of_int \<bar>m\<bar> * pow2 k" using pow2_pos [of k] by (simp add: x abs_mult)
  also have "\<dots> < of_int (2 ^ 53) * pow2 k"
    using m pow2_pos [of k] by (intro mult_strict_right_mono) (simp_all only: of_int_less_iff)
  also have "\<dots> = pow2 (53 + k)"
  proof -
    have "pow2 53 = 2 ^ 53" by (simp add: pow2_def)
    then show ?thesis by (simp add: pow2_add)
  qed
  finally have "pow2 e < pow2 (53 + k)" .
  then have "e < 53 + k" using pow2_mono [of "53 + k" e] by (cases "e < 53 + k") auto
  then have jk: "j \<le> k" using k by (simp add: j_def)
  define d where "d = nat (k - j)"
  have "pow2 k = pow2 (j + int d)" using jk by (simp add: d_def)
  then have pk: "pow2 k = pow2 j * 2 ^ d" by (simp add: pow2_add pow2_nat)
  have "x / pow2 j = of_int (m * 2 ^ d)" using pow2_pos [of j] by (simp add: x pk)
  then have "round_half_even (x / pow2 j) = m * 2 ^ d" by (simp only: round_half_even_of_int)
  then have "of_int (round_half_even (x / pow2 j)) * pow2 j = x" by (simp add: x pk)
  then show ?thesis using False fin by (simp add: round_double_def e_def [symmetric] j_def [symmetric])
qed

lemma round_double_of_int:
  "\<bar>n\<bar> < 2 ^ 53 \<Longrightarrow> round_double (of_int n) = Finite (of_int n)"
proof -
  assume n: "\<bar>n\<bar> < 2 ^ 53"
  have "(of_int \<bar>n\<bar> :: real) < of_int (2 ^ 53)" using n by (simp only: of_int_less_iff)
  also have "\<dots> \<le> pow2 1024" by (simp add: pow2_def)
  finally have "\<bar>of_int n :: real\<bar> < pow2 1024" by simp
  then show ?thesis using n by (intro round_double_exact [where m = n and k = 0]) (simp_all add: pow2_def)
qed


lemma round_half_even_uminus: "round_half_even (- x) = - round_half_even x"
proof (cases "x = of_int \<lfloor>x\<rfloor>")
  case True
  then obtain n where "x = of_int n" ..
  then have "- x = of_int (- n)" by simp
  then show ?thesis using \<open>x = of_int n\<close> by (simp only: round_half_even_of_int)
next
  case False
  then have fl: "\<lfloor>- x\<rfloor> = - \<lfloor>x\<rfloor> - 1"
    by (metis ceiling_altdef ceiling_def diff_minus_eq_add minus_diff_eq add.commute uminus_add_conv_diff minus_minus)
  have d: "0 < x - of_int \<lfloor>x\<rfloor>" using False floor_correct [of x] by linarith
  show ?thesis
    using d by (auto simp: round_half_even_def Let_def fl)
qed

lemma round_double_uminus: "round_double (- x) = dneg (round_double x)"
proof (cases "x = 0")
  case True
  then show ?thesis by (simp add: round_double_def)
next
  case False
  define q where "q = pow2 (max (ilog2 \<bar>x\<bar>) (- 1022) - 52)"
  have "round_half_even (- x / q) = - round_half_even (x / q)"
    using round_half_even_uminus [of "x / q"] by simp
  then show ?thesis
    using False by (simp add: round_double_def q_def [symmetric] Let_def)
qed

lemma round_double_nonzero:
  assumes "x \<noteq> 0"
  shows "\<exists>q. 0 < q \<and> round_double x =
     (if pow2 1024 \<le> \<bar>of_int (round_half_even (x / q)) * q\<bar>
      then (if 0 < x then PosInf else NegInf)
      else Finite (of_int (round_half_even (x / q)) * q))"
  using assms
  by (intro exI [of _ "pow2 (max (ilog2 \<bar>x\<bar>) (- 1022) - 52)"])
    (simp add: round_double_def Let_def pow2_pos)

lemma round_double_nonpos:
  assumes "x \<le> 0"
  shows "dle (round_double x) (Finite 0)"
proof (cases "x = 0")
  case True
  then show ?thesis by (simp add: round_double_def)
next
  case False
  from round_double_nonzero [OF False] obtain q where q: "0 < q"
    and r: "round_double x =
     (if pow2 1024 \<le> \<bar>of_int (round_half_even (x / q)) * q\<bar>
      then (if 0 < x then PosInf else NegInf)
      else Finite (of_int (round_half_even (x / q)) * q))"
    by blast
  have "x / q \<le> 0" using assms q by (simp add: divide_le_0_iff)
  then have "\<lceil>x / q\<rceil> \<le> 0" by (simp add: ceiling_le_iff)
  with round_half_even_bounds [of "x / q"] have "round_half_even (x / q) \<le> 0" by linarith
  then have "real_of_int (round_half_even (x / q)) * q \<le> 0"
    using q by (simp add: mult_le_0_iff)
  then show ?thesis
    using assms by (simp add: r)
qed

text \<open>
  The error of a rounding. The nearest integer is at most a half away; so a number of the
  normal range, from \<open>2 ^ - 1022\<close> to \<open>2 ^ 1023\<close> in magnitude, is rounded to a double
  within the relative error \<open>2 ^ - 53\<close>.
\<close>

lemma round_half_even_err: "\<bar>of_int (round_half_even x) - x\<bar> \<le> 1 / 2"
proof -
  have "of_int \<lfloor>x\<rfloor> \<le> x" "x < of_int \<lfloor>x\<rfloor> + 1" using floor_correct [of x] by simp_all
  then show ?thesis by (auto simp: round_half_even_def Let_def)
qed

lemma round_double_rel:
  assumes lo: "pow2 (- 1022) \<le> \<bar>x\<bar>" and hi: "\<bar>x\<bar> \<le> pow2 1023"
  shows "\<exists>d. round_double x = Finite (x * (1 + d)) \<and> \<bar>d\<bar> \<le> 1 / 2 ^ 53"
proof -
  have pos: "0 < \<bar>x\<bar>" using lo pow2_pos [of "- 1022"] by linarith
  then have x0: "x \<noteq> 0" by simp
  define e where "e = ilog2 \<bar>x\<bar>"
  have elo: "pow2 e \<le> \<bar>x\<bar>" and ehi: "\<bar>x\<bar> < pow2 (e + 1)"
    using ilog2_bounds [OF pos] by (simp_all add: e_def)
  have "pow2 (- 1022) < pow2 (e + 1)" using lo ehi by simp
  then have e1: "- 1022 \<le> e" using pow2_mono [of "e + 1" "- 1022"] by (cases "- 1022 \<le> e") auto
  define q where "q = pow2 (e - 52)"
  have q: "0 < q" by (simp add: q_def pow2_pos)
  have "pow2 52 = 2 ^ 52" by (simp add: pow2_def)
  then have pe: "pow2 e = 2 ^ 52 * q" using pow2_add [of 52 "e - 52"] by (simp add: q_def)
  define z where "z = x / q"
  define y where "y = of_int (round_half_even z) * q"
  have "y - x = (of_int (round_half_even z) - z) * q"
    using q by (simp add: y_def z_def algebra_simps)
  then have "\<bar>y - x\<bar> = \<bar>of_int (round_half_even z) - z\<bar> * q"
    using q by (simp add: abs_mult)
  also have "\<dots> \<le> 1 / 2 * q"
    using round_half_even_err [of z] q by (intro mult_right_mono) simp_all
  also have "\<dots> \<le> \<bar>x\<bar> / 2 ^ 53" using elo by (simp add: pe)
  finally have err: "\<bar>y - x\<bar> \<le> \<bar>x\<bar> / 2 ^ 53" .
  have "pow2 1024 = 2 * pow2 1023" using pow2_add [of 1 1023] by (simp add: pow2_def)
  moreover have "\<bar>y\<bar> \<le> \<bar>x\<bar> + \<bar>x\<bar> / 2 ^ 53" using err by linarith
  ultimately have fin: "\<bar>y\<bar> < pow2 1024" using hi pos by simp
  have "max e (- 1022) = e" using e1 by simp
  then have r: "round_double x = Finite y"
    using x0 fin
    by (simp add: round_double_def e_def [symmetric] q_def [symmetric] z_def [symmetric]
        y_def [symmetric] Let_def)
  define d where "d = (y - x) / x"
  have "x * (1 + d) = y" using x0 by (simp add: d_def field_simps)
  moreover have "\<bar>d\<bar> \<le> 1 / 2 ^ 53"
  proof -
    have "\<bar>d\<bar> = \<bar>y - x\<bar> / \<bar>x\<bar>" by (simp add: d_def)
    also have "\<dots> \<le> (\<bar>x\<bar> / 2 ^ 53) / \<bar>x\<bar>" using err pos by (intro divide_right_mono) simp_all
    also have "\<dots> = 1 / 2 ^ 53" using pos by simp
    finally show ?thesis .
  qed
  ultimately show ?thesis using r by blast
qed

lemma round_double_rel0:
  assumes "x = 0 \<or> pow2 (- 1022) \<le> \<bar>x\<bar>" and "\<bar>x\<bar> \<le> pow2 1023"
  shows "\<exists>g. round_double x = Finite (x * g) \<and> \<bar>g - 1\<bar> \<le> 1 / 2 ^ 53"
proof (cases "x = 0")
  case True
  then have "round_double x = Finite (x * 1)" by (simp add: round_double_def)
  then show ?thesis by (intro exI [of _ 1]) simp
next
  case False
  with assms have "pow2 (- 1022) \<le> \<bar>x\<bar>" by simp
  from round_double_rel [OF this assms(2)] obtain d
    where "round_double x = Finite (x * (1 + d))" and "\<bar>d\<bar> \<le> 1 / 2 ^ 53" by blast
  then show ?thesis by (intro exI [of _ "1 + d"]) simp
qed

text \<open>Whole numbers of the source and of the examples are doubles.\<close>

lemma round_double_numeral [simp]:
  "(numeral w :: int) < 2 ^ 53 \<Longrightarrow> round_double (numeral w) = Finite (numeral w)"
  using round_double_of_int [of "numeral w"] by simp

lemma round_double_neg_numeral [simp]:
  "(numeral w :: int) < 2 ^ 53 \<Longrightarrow> round_double (- numeral w) = Finite (- numeral w)"
  using round_double_of_int [of "- numeral w"] by simp

lemma round_double_0 [simp]: "round_double 0 = Finite 0"
  by (simp add: round_double_def)

lemma round_double_1 [simp]: "round_double 1 = Finite 1"
  using round_double_of_int [of 1] by simp

lemma round_double_minus_1: "round_double (- 1) = Finite (- 1)"
  using round_double_of_int [of "- 1"] by simp

text \<open>The three volatility literals, and the literal \<^verbatim>\<open>100.0\<close>.\<close>

lemma dlit_0_2: "dlit 0.2 = Finite (3602879701896397 / 18014398509481984)"
  unfolding dlit_def
  by (subst round_double_eval [of "- 3"]) (simp_all add: pow2_def round_half_even_def Let_def)

lemma dlit_0_1: "dlit 0.1 = Finite (3602879701896397 / 36028797018963968)"
  unfolding dlit_def
  by (subst round_double_eval [of "- 4"]) (simp_all add: pow2_def round_half_even_def Let_def)

lemma dlit_0_05: "dlit 0.05 = Finite (3602879701896397 / 72057594037927936)"
  unfolding dlit_def
  by (subst round_double_eval [of "- 5"]) (simp_all add: pow2_def round_half_even_def Let_def)

lemma dlit_100: "dlit 100 = Finite 100"
  by (simp add: dlit_def)

subsection \<open>Comparisons\<close>

lemma dlt_irrefl: "\<not> dlt a a"
  by (cases a) simp_all

lemma dge_not_dlt: "dge a b \<Longrightarrow> \<not> dlt a b"
  by (cases a; cases b) (simp_all add: dge_def)


lemma dle_dge_not_dlt: "dle t (Finite 0) \<Longrightarrow> dge b (Finite 0) \<Longrightarrow> \<not> dlt b t"
  by (cases t; cases b) (simp_all add: dge_def)

subsection \<open>Constructors and price steps\<close>

lemma UserOwnedStock_new_eq:
  "UserOwnedStock_new base qty =
     \<lparr>id' = id' base, name = name base, currentPrice = currentPrice base,
      riskLevel = riskLevel base, priceHistory = [currentPrice base], quantity = qty\<rparr>"
  by (simp add: UserOwnedStock_new_def SimulatedStock_new_def SimulatedStock.extend_def
      UserOwnedStock.fields_def)

lemma priceHistory_updatePrice:
  "priceHistory (updatePrice rv s) = priceHistory s @ [currentPrice (updatePrice rv s)]"
  by (simp add: updatePrice_def Let_def)

lemma length_history_fold:
  "length (priceHistory (fold updatePrice rvs s)) = length (priceHistory s) + length rvs"
  by (induction rvs arbitrary: s) (simp_all add: priceHistory_updatePrice)


lemma name_updatePrice: "name (updatePrice rv s) = name s"
  by (simp add: updatePrice_def Let_def)

lemma names_updatePrices_loop: "map name (updatePrices_loop rnd k xs) = map name xs"
  by (induction xs arbitrary: k) (simp_all add: name_updatePrice)

subsection \<open>The loop of \<^verbatim>\<open>buyStock\<close>\<close>

lemma buyStock_loop_None: "(buyStock_loop xs n q = None) = (n \<notin> name ` set xs)"
  by (induction xs) auto

lemma buyStock_loop_first:
  "n \<notin> name ` set xs \<Longrightarrow> name st = n \<Longrightarrow>
   buyStock_loop (xs @ st # ys) n q = Some (xs @ buy st q # ys)"
  by (induction xs) auto

lemma buyStock_loop_names:
  "buyStock_loop xs n q = Some ys \<Longrightarrow> map name ys = map name xs"
  by (induction xs arbitrary: ys) (auto simp: buy_def split: if_splits)

lemma buyStock_rejected:
  "dlt (balance up) (dmul (currentPrice s) (double_of_int (sint q))) \<Longrightarrow>
   buyStock up s q = (up, [''Insufficient balance.'' @ endl])"
  by (simp add: buyStock_def Let_def dgt_def)

lemma buyStock_existing:
  assumes "\<not> dlt (balance up) (dmul (currentPrice s) (double_of_int (sint q)))"
    and "ownedStocks up = xs @ st # ys" and "name st = name s" and "name s \<notin> name ` set xs"
  shows "buyStock up s q =
     (up\<lparr>balance := dsub (balance up) (dmul (currentPrice s) (double_of_int (sint q))),
         ownedStocks := xs @ st\<lparr>quantity := quantity st + q\<rparr> # ys\<rparr>, [])"
  using assms(1) buyStock_loop_first [OF assms(4) assms(3), of ys q]
  by (simp add: buyStock_def Let_def assms(2) buy_def dgt_def)

lemma buyStock_new:
  assumes "\<not> dlt (balance up) (dmul (currentPrice s) (double_of_int (sint q)))"
    and "name s \<notin> name ` set (ownedStocks up)"
  shows "buyStock up s q =
     (up\<lparr>balance := dsub (balance up) (dmul (currentPrice s) (double_of_int (sint q))),
         ownedStocks := ownedStocks up @ [UserOwnedStock_new s q]\<rparr>, [])"
proof -
  have "buyStock_loop (ownedStocks up) (name s) q = None"
    using assms(2) by (simp add: buyStock_loop_None)
  then show ?thesis using assms(1) by (simp add: buyStock_def Let_def dgt_def)
qed

lemma buyStock_accepted:
  assumes "\<not> dlt (balance up) (dmul (currentPrice s) (double_of_int (sint q)))"
  shows "snd (buyStock up s q) = []"
    and "balance (fst (buyStock up s q))
           = dsub (balance up) (dmul (currentPrice s) (double_of_int (sint q)))"
  using assms by (simp_all add: buyStock_def Let_def dgt_def split: option.split)

subsection \<open>The loop of \<^verbatim>\<open>sellStock\<close>\<close>

text \<open>The loop passes over the positions whose name is not the one asked for.\<close>

lemma sellStock_loop_skip:
  "\<forall>j. i \<le> j \<and> j < k \<longrightarrow> name (ownedStocks up ! j) \<noteq> n \<Longrightarrow> i \<le> k \<Longrightarrow>
   k \<le> length (ownedStocks up) \<Longrightarrow>
   sellStock_loop up n q i = sellStock_loop up n q k"
proof (induction "k - i" arbitrary: i)
  case 0
  then show ?case by simp
next
  case (Suc d)
  then have lt: "i < k" and ne: "name (ownedStocks up ! i) \<noteq> n" by auto
  have "sellStock_loop up n q i = sellStock_loop up n q (Suc i)"
    using lt ne Suc.prems(3) by (subst sellStock_loop.simps) simp
  also have "\<dots> = sellStock_loop up n q k"
    using Suc by auto
  finally show ?case .
qed

text \<open>One pass of the loop body at a position of the name asked for.\<close>

lemma sellStock_loop_at:
  assumes "ownedStocks up = xs @ st # ys" and "name st = n"
  shows "sellStock_loop up n q (length xs) =
     (if sint q \<le> sint (quantity st) then
        (up\<lparr>balance := dadd (balance up) (dmul (double_of_int (sint q)) (currentPrice st)),
            ownedStocks := (if quantity st - q = 0 then xs @ ys
                            else xs @ st\<lparr>quantity := quantity st - q\<rparr> # ys)\<rparr>, [])
      else (up, [''Not enough quantity.'' @ endl]))"
  using assms
  by (subst sellStock_loop.simps) (simp add: sell_def erase_def Let_def)

lemma sellStock_first:
  assumes "ownedStocks up = xs @ st # ys" and "name st = n" and "n \<notin> name ` set xs"
  shows "sellStock up n q =
     (if sint q \<le> sint (quantity st) then
        (up\<lparr>balance := dadd (balance up) (dmul (double_of_int (sint q)) (currentPrice st)),
            ownedStocks := (if quantity st - q = 0 then xs @ ys
                            else xs @ st\<lparr>quantity := quantity st - q\<rparr> # ys)\<rparr>, [])
      else (up, [''Not enough quantity.'' @ endl]))"
proof -
  have "\<forall>j. 0 \<le> j \<and> j < length xs \<longrightarrow> name (ownedStocks up ! j) \<noteq> n"
    using assms(1,3) by (auto simp: nth_append)
  then have "sellStock_loop up n q 0 = sellStock_loop up n q (length xs)"
    by (rule sellStock_loop_skip) (simp_all add: assms(1))
  then show ?thesis
    unfolding sellStock_def by (simp only: sellStock_loop_at [OF assms(1,2)])
qed

lemma sellStock_absent:
  assumes "n \<notin> name ` set (ownedStocks up)"
  shows "sellStock up n q = (up, [''Stock not found in portfolio.'' @ endl])"
proof -
  have "\<forall>j. 0 \<le> j \<and> j < length (ownedStocks up) \<longrightarrow> name (ownedStocks up ! j) \<noteq> n"
    using assms by (metis image_eqI nth_mem)
  then have "sellStock_loop up n q 0 = sellStock_loop up n q (length (ownedStocks up))"
    by (rule sellStock_loop_skip) simp_all
  also have "\<dots> = (up, [''Stock not found in portfolio.'' @ endl])"
    by (subst sellStock_loop.simps) simp
  finally show ?thesis by (simp add: sellStock_def)
qed

text \<open>A list that holds a name splits at the first position of that name.\<close>

lemma split_first:
  "n \<in> name ` set xs \<Longrightarrow> \<exists>ys st zs. xs = ys @ st # zs \<and> name st = n \<and> n \<notin> name ` set ys"
proof (induction xs)
  case Nil
  then show ?case by simp
next
  case (Cons a xs)
  show ?case
  proof (cases "name a = n")
    case True
    then have "a # xs = [] @ a # xs \<and> name a = n \<and> n \<notin> name ` set []" by simp
    then show ?thesis by blast
  next
    case False
    with Cons obtain ys st zs where "xs = ys @ st # zs" "name st = n" "n \<notin> name ` set ys"
      by auto
    with False have "a # xs = (a # ys) @ st # zs \<and> name st = n \<and> n \<notin> name ` set (a # ys)"
      by simp
    then show ?thesis by blast
  qed
qed

subsection \<open>Names of the positions\<close>

lemma distinct_buyStock:
  assumes "distinct (map name (ownedStocks up))"
  shows "distinct (map name (ownedStocks (fst (buyStock up s q))))"
proof (cases "buyStock_loop (ownedStocks up) (name s) q")
  case None
  then have "name s \<notin> name ` set (ownedStocks up)" by (simp add: buyStock_loop_None)
  with None assms show ?thesis
    by (simp add: buyStock_def Let_def UserOwnedStock_new_eq)
next
  case (Some l)
  with assms buyStock_loop_names [OF Some] show ?thesis
    by (simp add: buyStock_def Let_def)
qed

lemma distinct_sellStock:
  assumes "distinct (map name (ownedStocks up))"
  shows "distinct (map name (ownedStocks (fst (sellStock up n q))))"
proof (cases "n \<in> name ` set (ownedStocks up)")
  case False
  then show ?thesis using assms by (simp add: sellStock_absent)
next
  case True
  then obtain ys st zs
    where d: "ownedStocks up = ys @ st # zs" "name st = n" "n \<notin> name ` set ys"
    using split_first by blast
  show ?thesis
    using assms by (auto simp: sellStock_first [OF d] d(1))
qed

lemma distinct_updatePrices:
  "distinct (map name (ownedStocks up)) \<Longrightarrow>
   distinct (map name (ownedStocks (updatePrices rnd up)))"
  by (simp add: updatePrices_def names_updatePrices_loop)

lemma distinct_apply_operation:
  "distinct (map name (ownedStocks up)) \<Longrightarrow>
   distinct (map name (ownedStocks (apply_operation up op)))"
  by (cases op) (simp_all add: distinct_buyStock distinct_sellStock distinct_updatePrices)

lemma distinct_run:
  "distinct (map name (ownedStocks up)) \<Longrightarrow> distinct (map name (ownedStocks (run up ops)))"
  unfolding run_def by (induction ops arbitrary: up) (simp_all add: distinct_apply_operation)

subsection \<open>Conversions of the menu\<close>

lemma to_size_t_nonneg: "0 \<le> x \<Longrightarrow> is_int x \<Longrightarrow> to_size_t x = nat x"
  by (simp add: to_size_t_def is_int_def)

subsection \<open>Evaluation\<close>

text \<open>The definitions that the evaluation of a purchase at concrete values unfolds.\<close>

lemmas buy_eval =
  buyStock_def Let_def UserPortfolio_new_def SimulatedStock_new_def UserOwnedStock_new_eq
  buy_def dgt_def dsub_def double_of_int_def


text \<open>
  One price step of Apple (211.0, Medium) where \<^verbatim>\<open>rand()\<close> returns 150: the four
  operations of line 57 and 58, each rounded. The result is the double written 221.55.
\<close>

lemma updatePrice_apple_150:
  assumes "currentPrice s = Finite 211" and "riskLevel s = ''Medium''"
  shows "updatePrice 150 s =
     s\<lparr>currentPrice := Finite (3897548818140365 / 17592186044416),
       priceHistory := priceHistory s @ [Finite (3897548818140365 / 17592186044416)]\<rparr>"
proof -
  have r: "double_of_int (int (150 mod 201) - 100) = Finite 50"
    by (simp add: double_of_int_def)
  have d: "ddiv (Finite 50) (dlit 100) = Finite (1 / 2)"
    by (simp only: dlit_100 ddiv.simps, subst round_double_eval [of "- 1"])
      (simp_all add: pow2_def round_half_even_def Let_def)
  have m1: "dmul (Finite (1 / 2)) (dlit 0.1) = Finite (3602879701896397 / 72057594037927936)"
    by (simp only: dlit_0_1 dmul.simps, subst round_double_eval [of "- 5"])
      (simp_all add: pow2_def round_half_even_def Let_def)
  have m2: "dmul (Finite (3602879701896397 / 72057594037927936)) (Finite 211)
      = Finite (2969561004297421 / 281474976710656)"
    by (simp only: dmul.simps, subst round_double_eval [of 3])
      (simp_all add: pow2_def round_half_even_def Let_def)
  have a: "dadd (Finite 211) (Finite (2969561004297421 / 281474976710656))
      = Finite (3897548818140365 / 17592186044416)"
    by (simp only: dadd.simps, subst round_double_eval [of 7])
      (simp_all add: pow2_def round_half_even_def Let_def)
  have c: "\<not> dlt (Finite (3897548818140365 / 17592186044416)) (double_of_int 1)"
    by (simp add: double_of_int_def)
  have v: "volatility_of (riskLevel s) = dlit 0.1"
    by (simp add: volatility_of_def assms(2))
  show ?thesis
    unfolding updatePrice_def Let_def v assms(1) r d m1 m2 a
    using c by simp
qed




text \<open>
  A sum that is not a double: \<open>2 ^ 53 + 1\<close> lies half way between the doubles \<open>2 ^ 53\<close>
  and \<open>2 ^ 53 + 2\<close>, and the tie goes to \<open>2 ^ 53\<close>.
\<close>

lemma round_double_tie: "round_double (9007199254740992 + 1) = Finite 9007199254740992"
  by (subst round_double_eval [of 53]) (simp_all add: pow2_def round_half_even_def Let_def)

subsection \<open>The error of a price step\<close>

text \<open>
  Relative errors compose under products, and a factor near 1 keeps a number within the
  normal range.
\<close>

lemma rel_mult:
  fixes a b :: real
  assumes "\<bar>a - 1\<bar> \<le> \<alpha>" and "\<bar>b - 1\<bar> \<le> \<beta>"
  shows "\<bar>a * b - 1\<bar> \<le> \<alpha> + \<beta> + \<alpha> * \<beta>"
proof -
  have "a * b - 1 = (a - 1) * (b - 1) + ((a - 1) + (b - 1))" by (simp add: algebra_simps)
  also have "\<bar>\<dots>\<bar> \<le> \<bar>(a - 1) * (b - 1)\<bar> + \<bar>(a - 1) + (b - 1)\<bar>" by (rule abs_triangle_ineq)
  also have "\<dots> \<le> \<bar>(a - 1) * (b - 1)\<bar> + (\<bar>a - 1\<bar> + \<bar>b - 1\<bar>)"
    using abs_triangle_ineq [of "a - 1" "b - 1"] by linarith
  finally have "\<bar>a * b - 1\<bar> \<le> \<bar>a - 1\<bar> * \<bar>b - 1\<bar> + \<bar>a - 1\<bar> + \<bar>b - 1\<bar>"
    by (simp add: abs_mult)
  moreover have "\<bar>a - 1\<bar> * \<bar>b - 1\<bar> \<le> \<alpha> * \<beta>"
    using assms by (intro mult_mono) simp_all
  ultimately show ?thesis using assms by linarith
qed


lemma range_scale:
  fixes c g :: real
  assumes c: "c = 0 \<or> lo \<le> \<bar>c\<bar>" and hi: "\<bar>c\<bar> \<le> hi" and g: "\<bar>g - 1\<bar> \<le> 1 / 2" and lo: "0 \<le> lo"
  shows "(c * g = 0 \<or> lo / 2 \<le> \<bar>c * g\<bar>) \<and> \<bar>c * g\<bar> \<le> 2 * hi"
proof -
  have g1: "1 / 2 \<le> \<bar>g\<bar>" and g2: "\<bar>g\<bar> \<le> 2" using g by linarith+
  have "\<bar>c\<bar> * \<bar>g\<bar> \<le> hi * 2" using hi g2 by (intro mult_mono) simp_all
  then have A: "\<bar>c * g\<bar> \<le> 2 * hi" by (simp add: abs_mult)
  have B: "c * g = 0 \<or> lo / 2 \<le> \<bar>c * g\<bar>"
  proof (cases "c = 0")
    case True
    then show ?thesis by simp
  next
    case False
    with c have "lo \<le> \<bar>c\<bar>" by simp
    then have "lo * (1 / 2) \<le> \<bar>c\<bar> * \<bar>g\<bar>" using g1 lo by (intro mult_mono) simp_all
    then show ?thesis by (simp add: abs_mult)
  qed
  from A B show ?thesis by blast
qed

text \<open>
  One price step from a price \<open>x\<close> between 1 and \<open>2 ^ 1022\<close>. The five roundings (the
  quotient \<open>r / 100\<close>, the literal, the two products and the sum) are all in the normal
  range or exact at 0, so each has a relative error of at most \<open>2 ^ - 53\<close>. The change
  is at most a fifth of \<open>x\<close> in magnitude, and the errors add up to less than
  \<open>4 * x / 2 ^ 53\<close>. The clamp at 1 does not increase the distance.
\<close>

lemma updatePrice_error:
  fixes s :: "'a SimulatedStock_scheme"
  assumes cp: "currentPrice s = Finite x" and x1: "1 \<le> x" and xb: "x \<le> 2 ^ 1022"
  shows "\<exists>y. currentPrice (updatePrice rv s) = Finite y \<and> 1 \<le> y \<and>
     \<bar>y - max 1 (x + real_of_int (int (rv mod 201) - 100) / 100
                     * (if riskLevel s = ''High'' then 0.2
                        else if riskLevel s = ''Medium'' then 0.1 else 0.05) * x)\<bar>
       \<le> x / 2 ^ 51"
proof -
  define k where "k = int (rv mod 201) - 100"
  define a :: real where "a = of_int k / 100"
  define vr :: real where "vr = (if riskLevel s = ''High'' then 0.2
                        else if riskLevel s = ''Medium'' then 0.1 else 0.05)"
  define small where "small = pow2 (- 1022)"
  define big where "big = pow2 1023"
  have small: "0 < small" "small \<le> 1 / 8000"
  proof -
    show "0 < small" by (simp add: small_def pow2_pos)
    have "pow2 (- 1022) \<le> pow2 (- 13)" by (intro pow2_mono) simp
    also have "\<dots> \<le> 1 / 8000" by (simp add: pow2_def)
    finally show "small \<le> 1 / 8000" by (simp add: small_def)
  qed
  have big: "big = 2 * 2 ^ 1022" "1 \<le> big"
  proof -
    have "pow2 1023 = pow2 1 * pow2 1022" using pow2_add [of 1 1022] by simp
    moreover have "pow2 1 = 2" by (simp add: pow2_def)
    moreover have "pow2 1022 = 2 ^ 1022" using pow2_nat [of 1022] by simp
    ultimately show "big = 2 * 2 ^ 1022" by (simp add: big_def)
    have "pow2 0 \<le> pow2 1023" by (intro pow2_mono) simp
    then show "1 \<le> big" by (simp add: big_def pow2_def)
  qed
  have xbig: "x \<le> big / 2" using xb by (simp add: big(1))
  have rel: "\<exists>g. round_double t = Finite (t * g) \<and> \<bar>g - 1\<bar> \<le> 1 / 2 ^ 53"
    if "t = 0 \<or> small \<le> \<bar>t\<bar>" and "\<bar>t\<bar> \<le> big" for t
    using that unfolding small_def big_def by (rule round_double_rel0)
  have kb: "- 100 \<le> k" "k \<le> 100"
  proof -
    have "rv mod 201 < 201" by simp
    then show "k \<le> 100" unfolding k_def by linarith
    show "- 100 \<le> k" by (simp add: k_def)
  qed
  have a: "a = 0 \<or> 1 / 100 \<le> \<bar>a\<bar>" "\<bar>a\<bar> \<le> 1"
  proof -
    have "k = 0 \<or> 1 \<le> \<bar>k\<bar>" by linarith
    then have "real_of_int k = 0 \<or> 1 \<le> \<bar>real_of_int k\<bar>" by auto
    then show "a = 0 \<or> 1 / 100 \<le> \<bar>a\<bar>" by (auto simp: a_def)
    have "\<bar>k\<bar> \<le> 100" using kb by linarith
    then have "\<bar>real_of_int k\<bar> \<le> 100" by linarith
    then show "\<bar>a\<bar> \<le> 1" by (simp add: a_def)
  qed
  have vr: "1 / 20 \<le> vr" "vr \<le> 1 / 5" by (simp_all add: vr_def)
  txt \<open>the quotient\<close>
  have "(a = 0 \<or> small \<le> \<bar>a\<bar>) \<and> \<bar>a\<bar> \<le> big" using a small big(2) by linarith
  then obtain g1 where d1: "round_double a = Finite (a * g1)" and g1: "\<bar>g1 - 1\<bar> \<le> 1 / 2 ^ 53"
    using rel [of a] by blast
  have q: "ddiv (double_of_int k) (dlit 100) = Finite (a * g1)"
    using d1 by (simp add: double_of_int_def dlit_100 a_def)
  txt \<open>the literal\<close>
  have "(vr = 0 \<or> small \<le> \<bar>vr\<bar>) \<and> \<bar>vr\<bar> \<le> big" using vr small big(2) by linarith
  then obtain g2 where d2: "round_double vr = Finite (vr * g2)" and g2: "\<bar>g2 - 1\<bar> \<le> 1 / 2 ^ 53"
    using rel [of vr] by blast
  have "volatility_of (riskLevel s) = round_double vr"
    by (simp add: volatility_of_def vr_def dlit_def)
  then have v: "volatility_of (riskLevel s) = Finite (vr * g2)"
    using d2 by (simp only:)
  txt \<open>the first product\<close>
  define c0 where "c0 = a * vr"
  define G2 where "G2 = g1 * g2"
  have G2: "\<bar>G2 - 1\<bar> \<le> 3 / 2 ^ 53" using rel_mult [OF g1 g2] by (simp add: G2_def)
  have c0: "c0 = 0 \<or> 1 / 2000 \<le> \<bar>c0\<bar>" "\<bar>c0\<bar> \<le> 1 / 5"
  proof -
    have e: "\<bar>c0\<bar> = \<bar>a\<bar> * vr" using vr by (simp add: c0_def abs_mult)
    have "\<bar>a\<bar> * vr \<le> 1 * (1 / 5)" using a(2) vr by (intro mult_mono) simp_all
    then show "\<bar>c0\<bar> \<le> 1 / 5" by (simp add: e)
    show "c0 = 0 \<or> 1 / 2000 \<le> \<bar>c0\<bar>"
    proof (cases "a = 0")
      case True
      then show ?thesis by (simp add: c0_def)
    next
      case False
      with a(1) have "1 / 100 \<le> \<bar>a\<bar>" by simp
      then have "(1 / 100) * (1 / 20) \<le> \<bar>a\<bar> * vr" using vr by (intro mult_mono) simp_all
      then show ?thesis by (simp add: e)
    qed
  qed
  have "\<bar>G2 - 1\<bar> \<le> 1 / 2" using G2 by simp
  from range_scale [OF c0(1) c0(2) this]
  have "(c0 * G2 = 0 \<or> small \<le> \<bar>c0 * G2\<bar>) \<and> \<bar>c0 * G2\<bar> \<le> big" using small big(2) by auto
  then obtain g3 where d3: "round_double (c0 * G2) = Finite (c0 * G2 * g3)"
    and g3: "\<bar>g3 - 1\<bar> \<le> 1 / 2 ^ 53"
    using rel [of "c0 * G2"] by blast
  have "a * g1 * (vr * g2) = c0 * G2" by (simp add: c0_def G2_def)
  then have m1: "dmul (Finite (a * g1)) (Finite (vr * g2)) = Finite (c0 * G2 * g3)"
    using d3 by simp
  txt \<open>the second product\<close>
  define c where "c = c0 * x"
  define G3 where "G3 = G2 * g3"
  have G3: "\<bar>G3 - 1\<bar> \<le> 5 / 2 ^ 53" using rel_mult [OF G2 g3] by (simp add: G3_def)
  have c: "c = 0 \<or> 1 / 2000 \<le> \<bar>c\<bar>" "\<bar>c\<bar> \<le> x / 5"
  proof -
    have e: "\<bar>c\<bar> = \<bar>c0\<bar> * x" using x1 by (simp add: c_def abs_mult)
    have "\<bar>c0\<bar> * x \<le> (1 / 5) * x" using c0(2) x1 by (intro mult_right_mono) simp_all
    then show "\<bar>c\<bar> \<le> x / 5" by (simp add: e)
    show "c = 0 \<or> 1 / 2000 \<le> \<bar>c\<bar>"
    proof (cases "c0 = 0")
      case True
      then show ?thesis by (simp add: c_def)
    next
      case False
      with c0(1) have "1 / 2000 \<le> \<bar>c0\<bar>" by simp
      then have "(1 / 2000) * 1 \<le> \<bar>c0\<bar> * x" using x1 by (intro mult_mono) simp_all
      then show ?thesis by (simp add: e)
    qed
  qed
  have "\<bar>G3 - 1\<bar> \<le> 1 / 2" using G3 by simp
  from range_scale [OF c(1) c(2) this]
  have "(c * G3 = 0 \<or> small \<le> \<bar>c * G3\<bar>) \<and> \<bar>c * G3\<bar> \<le> big" using small xbig x1 by auto
  then obtain g4 where d4: "round_double (c * G3) = Finite (c * G3 * g4)"
    and g4: "\<bar>g4 - 1\<bar> \<le> 1 / 2 ^ 53"
    using rel [of "c * G3"] by blast
  have "c0 * G2 * g3 * x = c * G3" by (simp add: c_def G3_def)
  then have m2: "dmul (Finite (c0 * G2 * g3)) (Finite x) = Finite (c * G3 * g4)"
    using d4 by simp
  txt \<open>the sum\<close>
  define G where "G = G3 * g4"
  define t where "t = c * G"
  define w where "w = x / 2 ^ 53"
  have w: "0 < w" "w \<le> x / 8" using x1 by (simp_all add: w_def)
  have G: "\<bar>G - 1\<bar> \<le> 7 / 2 ^ 53" using rel_mult [OF G3 g4] by (simp add: G_def)
  have "t - c = c * (G - 1)" by (simp add: t_def algebra_simps)
  then have "\<bar>t - c\<bar> = \<bar>c\<bar> * \<bar>G - 1\<bar>" by (simp add: abs_mult)
  also have "\<dots> \<le> (x / 5) * (7 / 2 ^ 53)" using c(2) G x1 by (intro mult_mono) simp_all
  finally have tc: "\<bar>t - c\<bar> \<le> 7 / 5 * w" by (simp add: w_def)
  have tx: "3 / 5 * x \<le> x + t" "x + t \<le> 7 / 5 * x" using tc c(2) w by linarith+
  have "(x + t = 0 \<or> small \<le> \<bar>x + t\<bar>) \<and> \<bar>x + t\<bar> \<le> big" using tx x1 xbig small by linarith
  then obtain g5 where d5: "round_double (x + t) = Finite ((x + t) * g5)"
    and g5: "\<bar>g5 - 1\<bar> \<le> 1 / 2 ^ 53"
    using rel [of "x + t"] by blast
  have "c * G3 * g4 = t" by (simp add: t_def G_def)
  then have s: "dadd (Finite x) (Finite (c * G3 * g4)) = Finite ((x + t) * g5)"
    using d5 by simp
  define p where "p = (x + t) * g5"
  have "p - (x + t) = (x + t) * (g5 - 1)" by (simp add: p_def algebra_simps)
  then have "\<bar>p - (x + t)\<bar> = \<bar>x + t\<bar> * \<bar>g5 - 1\<bar>" by (simp add: abs_mult)
  also have "\<dots> \<le> (7 / 5 * x) * (1 / 2 ^ 53)" using tx g5 x1 by (intro mult_mono) simp_all
  finally have "\<bar>p - (x + t)\<bar> \<le> 7 / 5 * w" by (simp add: w_def)
  with tc w have "\<bar>p - (x + c)\<bar> \<le> 4 * w" by linarith
  then have pe: "\<bar>p - (x + c)\<bar> \<le> x / 2 ^ 51" by (simp add: w_def)
  have cur: "currentPrice (updatePrice rv s) = Finite (max 1 p)"
    unfolding updatePrice_def Let_def k_def [symmetric] cp q v m1 m2 s
    by (simp add: double_of_int_def p_def max_def)
  have "x + real_of_int k / 100 * vr * x = x + c" by (simp add: c_def c0_def a_def)
  moreover have "\<bar>max 1 p - max 1 (x + c)\<bar> \<le> \<bar>p - (x + c)\<bar>" by linarith
  ultimately have "\<bar>max 1 p - max 1 (x + real_of_int k / 100 * vr * x)\<bar> \<le> x / 2 ^ 51"
    using pe by simp
  moreover have "1 \<le> max 1 p" by simp
  ultimately show ?thesis using cur unfolding k_def vr_def by blast
qed

subsection \<open>Negation and product\<close>

lemma dneg_dmul_right: "dneg (dmul a (Finite y)) = dmul a (Finite (- y))"
  by (cases a) (simp_all add: round_double_uminus [symmetric] inf_of_sign_def)

section \<open>The claims\<close>

text \<open>
  Claim C1. In every reachable portfolio state no position of quantity 0 is retained:
  after any call of \<^verbatim>\<open>buyStock\<close> or \<^verbatim>\<open>sellStock\<close> every position has a non-zero
  quantity.

  The program does not keep this. \<^verbatim>\<open>sellStock\<close> erases a position whose quantity
  has become 0 (lines 143-146), \<^verbatim>\<open>buyStock\<close> has no such step: a purchase of 0 shares
  of a stock that is not owned appends a position of quantity 0, and a purchase of
  \<open>- 2\<close> shares of a stock of which 2 are owned leaves that position with quantity 0.
  The theorem evaluates both runs from the portfolio that \<^verbatim>\<open>main\<close> creates.
\<close>

theorem buyStock_keeps_zero_quantity_position:
  "ownedStocks (run (UserPortfolio_new (Finite 3000))
      [BuyStock (SimulatedStock_new 1 ''Apple'' (Finite 211) ''Medium'') 0])
     = [UserOwnedStock_new (SimulatedStock_new 1 ''Apple'' (Finite 211) ''Medium'') 0]
   \<and> quantity (UserOwnedStock_new (SimulatedStock_new 1 ''Apple'' (Finite 211) ''Medium'') 0) = 0
   \<and> map quantity (ownedStocks (run (UserPortfolio_new (Finite 3000))
        [BuyStock (SimulatedStock_new 1 ''Apple'' (Finite 211) ''Medium'') 2,
         BuyStock (SimulatedStock_new 1 ''Apple'' (Finite 211) ''Medium'') (- 2)])) = [0]"
  by (simp add: run_def buy_eval)

text \<open>
  Claim C2, as stated. For every portfolio, every stock of price \<open>p\<close> and every quantity \<open>q\<close>:
  if the balance is at least \<open>p * q\<close>, \<^verbatim>\<open>buyStock\<close> debits the balance by exactly
  \<open>p * q\<close> and either adds \<open>q\<close> to the quantity of the existing position of the same
  name or creates a new position with quantity \<open>q\<close>; if the balance is below \<open>p * q\<close>
  the portfolio is unchanged. With balance 3000, buying 2 shares at price 211 gives
  balance 2578 and one position of quantity 2; buying 100 shares at 211 is rejected and
  the balance stays 3000.

  With \<open>p * q\<close> the product of the real numbers, and the sum of the integers, the
  program does not do this. The price \<open>p\<close> nearest to 1.1 is a little above 1.1, so
  \<open>p * 10\<close> is above 11; the program computes the product in \<^verbatim>\<open>double\<close>, where it
  rounds to 11, and with a balance of 11 it accepts the purchase and debits 11, not
  \<open>p * 10\<close>. And from the portfolio of \<^verbatim>\<open>main\<close>, a purchase of \<open>- 2147483648\<close> Apple
  followed by one of \<open>- 1\<close> leaves the position with quantity 2147483647: the
  addition of \<^verbatim>\<open>int\<close> wraps around.
\<close>

theorem buyStock_exact_total_counterexample:
  "dlit 1.1 = Finite (2476979795053773 / 2251799813685248)
   \<and> (11 :: real) < 2476979795053773 / 2251799813685248 * 10
   \<and> buyStock (UserPortfolio_new (Finite 11))
        (SimulatedStock_new 1 ''X'' (Finite (2476979795053773 / 2251799813685248)) ''Low'') 10
      = (\<lparr>balance = Finite 0, ownedStocks =
           [UserOwnedStock_new
              (SimulatedStock_new 1 ''X'' (Finite (2476979795053773 / 2251799813685248)) ''Low'')
              10]\<rparr>, [])
   \<and> map (\<lambda>st. sint (quantity st)) (ownedStocks (run (UserPortfolio_new (Finite 3000))
        [BuyStock (SimulatedStock_new 1 ''Apple'' (Finite 211) ''Medium'') (- 2147483648),
         BuyStock (SimulatedStock_new 1 ''Apple'' (Finite 211) ''Medium'') (- 1)]))
      = [2147483647]"
proof -
  let ?p = "2476979795053773 / 2251799813685248 :: real"
  let ?s = "SimulatedStock_new 1 ''X'' (Finite ?p) ''Low''"
  have lit: "dlit 1.1 = Finite ?p"
    unfolding dlit_def
    by (subst round_double_eval [of 0]) (simp_all add: pow2_def round_half_even_def Let_def)
  have above: "(11 :: real) < ?p * 10" by simp
  have "dmul (Finite ?p) (Finite 10) = Finite 11"
    by (simp only: dmul.simps, subst round_double_eval [of 3])
      (simp_all add: pow2_def round_half_even_def Let_def)
  then have total: "dmul (currentPrice ?s) (double_of_int (sint (10 :: int32))) = Finite 11"
    by (simp add: SimulatedStock_new_def double_of_int_def)
  have acc: "\<not> dlt (balance (UserPortfolio_new (Finite 11)))
      (dmul (currentPrice ?s) (double_of_int (sint (10 :: int32))))"
    by (simp only: total) (simp add: UserPortfolio_new_def)
  have new: "name ?s \<notin> name ` set (ownedStocks (UserPortfolio_new (Finite 11)))"
    by (simp add: UserPortfolio_new_def)
  have b: "buyStock (UserPortfolio_new (Finite 11)) ?s 10 =
      (\<lparr>balance = Finite 0, ownedStocks = [UserOwnedStock_new ?s 10]\<rparr>, [])"
    by (simp only: buyStock_new [OF acc new] total) (simp add: UserPortfolio_new_def dsub_def)
  have w: "map (\<lambda>st. sint (quantity st)) (ownedStocks (run (UserPortfolio_new (Finite 3000))
        [BuyStock (SimulatedStock_new 1 ''Apple'' (Finite 211) ''Medium'') (- 2147483648),
         BuyStock (SimulatedStock_new 1 ''Apple'' (Finite 211) ''Medium'') (- 1)]))
      = [2147483647]"
    by (simp add: run_def buy_eval)
  show ?thesis using lit above b w by blast
qed

text \<open>
  Claim C2, as the program has it. For every portfolio, every stock and every
  quantity \<open>q\<close>: the total is the product of the
  price and the quantity in \<^verbatim>\<open>double\<close> (rounded to the nearest double). If the balance
  is at least the total, \<^verbatim>\<open>buyStock\<close> writes no message, sets the balance to the
  \<^verbatim>\<open>double\<close> difference of the balance and the total, and either adds \<open>q\<close>, in 32-bit
  arithmetic, to the quantity of the first position of the same name (all other positions
  unchanged) or, when there is none, appends a new position of that name with quantity
  \<open>q\<close>. If the balance is below the total, the portfolio is unchanged and the
  insufficient-balance message is written. The two scenarios of the claim hold as stated.
\<close>

theorem buyStock_spec:
  "(dge (balance up) (dmul (currentPrice s) (double_of_int (sint q))) \<longrightarrow>
      snd (buyStock up s q) = [] \<and>
      balance (fst (buyStock up s q))
        = dsub (balance up) (dmul (currentPrice s) (double_of_int (sint q))) \<and>
      (\<forall>xs st ys. ownedStocks up = xs @ st # ys \<and> name st = name s
            \<and> name s \<notin> name ` set xs \<longrightarrow>
         ownedStocks (fst (buyStock up s q)) = xs @ st\<lparr>quantity := quantity st + q\<rparr> # ys) \<and>
      (name s \<notin> name ` set (ownedStocks up) \<longrightarrow>
         ownedStocks (fst (buyStock up s q)) = ownedStocks up @ [UserOwnedStock_new s q] \<and>
         name (UserOwnedStock_new s q) = name s \<and> quantity (UserOwnedStock_new s q) = q))
   \<and> (dlt (balance up) (dmul (currentPrice s) (double_of_int (sint q))) \<longrightarrow>
        buyStock up s q = (up, [''Insufficient balance.'' @ endl]))
   \<and> buyStock (UserPortfolio_new (Finite 3000)) (SimulatedStock_new i n (Finite 211) r) 2 =
        (\<lparr>balance = Finite 2578,
          ownedStocks = [\<lparr>id' = i, name = n, currentPrice = Finite 211, riskLevel = r,
                          priceHistory = [Finite 211], quantity = 2\<rparr>]\<rparr>, [])
   \<and> buyStock (UserPortfolio_new (Finite 3000)) (SimulatedStock_new i n (Finite 211) r) 100 =
        (UserPortfolio_new (Finite 3000), [''Insufficient balance.'' @ endl])"
proof (intro conjI impI allI)
  assume "dge (balance up) (dmul (currentPrice s) (double_of_int (sint q)))"
  then have le: "\<not> dlt (balance up) (dmul (currentPrice s) (double_of_int (sint q)))"
    by (rule dge_not_dlt)
  show "snd (buyStock up s q) = []"
    using le by (rule buyStock_accepted)
  show "balance (fst (buyStock up s q))
      = dsub (balance up) (dmul (currentPrice s) (double_of_int (sint q)))"
    using le by (rule buyStock_accepted)
  {
    fix xs st ys
    assume "ownedStocks up = xs @ st # ys \<and> name st = name s \<and> name s \<notin> name ` set xs"
    then show "ownedStocks (fst (buyStock up s q)) = xs @ st\<lparr>quantity := quantity st + q\<rparr> # ys"
      using le by (simp add: buyStock_existing)
  }
  {
    assume "name s \<notin> name ` set (ownedStocks up)"
    then show "ownedStocks (fst (buyStock up s q)) = ownedStocks up @ [UserOwnedStock_new s q]"
      using le by (simp add: buyStock_new)
  }
  show "name (UserOwnedStock_new s q) = name s" by (simp add: UserOwnedStock_new_eq)
  show "quantity (UserOwnedStock_new s q) = q" by (simp add: UserOwnedStock_new_eq)
next
  assume "dlt (balance up) (dmul (currentPrice s) (double_of_int (sint q)))"
  then show "buyStock up s q = (up, [''Insufficient balance.'' @ endl])"
    by (rule buyStock_rejected)
next
  show "buyStock (UserPortfolio_new (Finite 3000)) (SimulatedStock_new i n (Finite 211) r) 2 =
        (\<lparr>balance = Finite 2578,
          ownedStocks = [\<lparr>id' = i, name = n, currentPrice = Finite 211, riskLevel = r,
                          priceHistory = [Finite 211], quantity = 2\<rparr>]\<rparr>, [])"
    by (simp add: buy_eval)
  show "buyStock (UserPortfolio_new (Finite 3000)) (SimulatedStock_new i n (Finite 211) r) 100 =
        (UserPortfolio_new (Finite 3000), [''Insufficient balance.'' @ endl])"
    by (simp add: buy_eval)
qed

text \<open>
  The three cases at concrete portfolios: a first purchase of Apple, a second purchase
  that merges into the position, and a purchase the balance does not cover.
\<close>

theorem buyStock_spec_witness:
  "dge (balance (UserPortfolio_new (Finite 3000)))
      (dmul (currentPrice (SimulatedStock_new 1 ''Apple'' (Finite 211) ''Medium''))
            (double_of_int (sint (2 :: int32))))
   \<and> name (SimulatedStock_new 1 ''Apple'' (Finite 211) ''Medium'')
        \<notin> name ` set (ownedStocks (UserPortfolio_new (Finite 3000)))
   \<and> balance (fst (buyStock (UserPortfolio_new (Finite 3000))
        (SimulatedStock_new 1 ''Apple'' (Finite 211) ''Medium'') 2)) = Finite 2578
   \<and> ownedStocks (fst (buyStock (UserPortfolio_new (Finite 3000))
        (SimulatedStock_new 1 ''Apple'' (Finite 211) ''Medium'') 2)) =
       [UserOwnedStock_new (SimulatedStock_new 1 ''Apple'' (Finite 211) ''Medium'') 2]
   \<and> ownedStocks (fst (buyStock
         \<lparr>balance = Finite 2578, ownedStocks =
            [UserOwnedStock_new (SimulatedStock_new 1 ''Apple'' (Finite 211) ''Medium'') 2]\<rparr>
         (SimulatedStock_new 1 ''Apple'' (Finite 211) ''Medium'') 3)) =
       [UserOwnedStock_new (SimulatedStock_new 1 ''Apple'' (Finite 211) ''Medium'') 5]
   \<and> dlt (balance (UserPortfolio_new (Finite 3000)))
      (dmul (currentPrice (SimulatedStock_new 1 ''Apple'' (Finite 211) ''Medium''))
            (double_of_int (sint (100 :: int32))))
   \<and> buyStock (UserPortfolio_new (Finite 3000))
        (SimulatedStock_new 1 ''Apple'' (Finite 211) ''Medium'') 100 =
       (UserPortfolio_new (Finite 3000), [''Insufficient balance.'' @ endl])"
proof -
  let ?up = "UserPortfolio_new (Finite 3000)"
  let ?s = "SimulatedStock_new 1 ''Apple'' (Finite 211) ''Medium''"
  let ?up1 = "\<lparr>balance = Finite 2578, ownedStocks = [UserOwnedStock_new ?s 2]\<rparr>"
  have price: "currentPrice ?s = Finite 211" and nm: "name ?s = ''Apple''"
    by (simp_all add: SimulatedStock_new_def)
  have bal: "balance ?up = Finite 3000" and own: "ownedStocks ?up = []"
    by (simp_all add: UserPortfolio_new_def)
  have h1: "dge (balance ?up) (dmul (currentPrice ?s) (double_of_int (sint (2 :: int32))))"
    by (simp add: price bal dge_def double_of_int_def)
  have h2: "name ?s \<notin> name ` set (ownedStocks ?up)"
    by (simp add: own)
  have h3: "dge (balance ?up1) (dmul (currentPrice ?s) (double_of_int (sint (3 :: int32))))"
    by (simp add: price dge_def double_of_int_def)
  have h4: "ownedStocks ?up1 = [] @ UserOwnedStock_new ?s 2 # []
      \<and> name (UserOwnedStock_new ?s 2) = name ?s \<and> name ?s \<notin> name ` set []"
    by (simp add: UserOwnedStock_new_eq)
  have h5: "dlt (balance ?up) (dmul (currentPrice ?s) (double_of_int (sint (100 :: int32))))"
    by (simp add: price bal double_of_int_def)
  from buyStock_spec [where up = ?up and s = ?s and q = 2] h1 h2
  have b1: "balance (fst (buyStock ?up ?s 2))
        = dsub (balance ?up) (dmul (currentPrice ?s) (double_of_int (sint (2 :: int32))))"
    and b2: "ownedStocks (fst (buyStock ?up ?s 2)) = ownedStocks ?up @ [UserOwnedStock_new ?s 2]"
    by blast+
  have c1: "balance (fst (buyStock ?up ?s 2)) = Finite 2578"
    by (simp add: b1 price bal dsub_def double_of_int_def)
  have c2: "ownedStocks (fst (buyStock ?up ?s 2)) = [UserOwnedStock_new ?s 2]"
    by (simp add: b2 own)
  have c3: "ownedStocks (fst (buyStock ?up1 ?s 3)) = [UserOwnedStock_new ?s 5]"
  proof -
    from buyStock_spec [where up = ?up1 and s = ?s and q = 3] h3
    have "\<forall>xs st ys. ownedStocks ?up1 = xs @ st # ys \<and> name st = name ?s
            \<and> name ?s \<notin> name ` set xs \<longrightarrow>
          ownedStocks (fst (buyStock ?up1 ?s 3)) = xs @ st\<lparr>quantity := quantity st + 3\<rparr> # ys"
      by blast
    with h4 have "ownedStocks (fst (buyStock ?up1 ?s 3)) =
        [] @ (UserOwnedStock_new ?s 2)\<lparr>quantity := quantity (UserOwnedStock_new ?s 2) + 3\<rparr> # []"
      by blast
    then show ?thesis by (simp add: UserOwnedStock_new_eq)
  qed
  have c4: "buyStock ?up ?s 100 = (?up, [''Insufficient balance.'' @ endl])"
    using buyStock_spec [where up = ?up and s = ?s and q = 100] h5 by blast
  show ?thesis using h1 h2 h5 c1 c2 c3 c4 by blast
qed

text \<open>
  Claim C3, as stated. For every portfolio that holds a position of name \<open>n\<close>, with
  current price \<open>cp\<close> and quantity \<open>Q\<close>, and every quantity \<open>q\<close>: if \<open>q \<le> Q\<close> then
  \<^verbatim>\<open>sellStock(n, q)\<close> credits the balance with exactly \<open>q * cp\<close> and sets the quantity
  of the position to \<open>Q - q\<close>, and the position is removed if and only if \<open>Q - q = 0\<close>;
  if \<open>q > Q\<close> the portfolio is unchanged and a message is written.

  With \<open>q * cp\<close> and \<open>Q - q\<close> the numbers of real and integer arithmetic, the program
  does not do this. Buy one Apple in the portfolio of \<^verbatim>\<open>main\<close> and let one day pass with
  \<^verbatim>\<open>rand()\<close> = 150: the balance is 2789 and the position has the price written 221.55.
  Selling it credits the balance in \<^verbatim>\<open>double\<close>; the sum is rounded, and the new
  balance is not \<open>2789 + 1 * cp\<close>. And selling \<open>- 2147483648\<close> shares of a position of
  1 share leaves the quantity \<open>- 2147483647\<close>, not \<open>2147483649\<close>: the subtraction of
  \<^verbatim>\<open>int\<close> wraps around.
\<close>

theorem sellStock_exact_credit_counterexample:
  "run (UserPortfolio_new (Finite 3000))
      [BuyStock (SimulatedStock_new 1 ''Apple'' (Finite 211) ''Medium'') 1,
       UpdatePrices (\<lambda>k. 150)]
     = \<lparr>balance = Finite 2789, ownedStocks =
         [\<lparr>id' = 1, name = ''Apple'',
           currentPrice = Finite (3897548818140365 / 17592186044416),
           riskLevel = ''Medium'',
           priceHistory = [Finite 211, Finite (3897548818140365 / 17592186044416)],
           quantity = 1\<rparr>]\<rparr>
   \<and> sellStock \<lparr>balance = Finite 2789, ownedStocks =
         [\<lparr>id' = 1, name = ''Apple'',
           currentPrice = Finite (3897548818140365 / 17592186044416),
           riskLevel = ''Medium'',
           priceHistory = [Finite 211, Finite (3897548818140365 / 17592186044416)],
           quantity = 1\<rparr>]\<rparr> ''Apple'' 1
     = (\<lparr>balance = Finite (3310134731001037 / 1099511627776), ownedStocks = []\<rparr>, [])
   \<and> (3310134731001037 / 1099511627776 :: real)
        \<noteq> 2789 + 1 * (3897548818140365 / 17592186044416)
   \<and> map (\<lambda>st. sint (quantity st)) (ownedStocks (run (UserPortfolio_new (Finite 3000))
        [BuyStock (SimulatedStock_new 1 ''Apple'' (Finite 211) ''Medium'') 1,
         SellStock ''Apple'' (- 2147483648)]))
      = [- 2147483647]
   \<and> sint (1 :: int32) - sint (- 2147483648 :: int32) = 2147483649"
proof -
  let ?s = "SimulatedStock_new 1 ''Apple'' (Finite 211) ''Medium''"
  let ?cp = "3897548818140365 / 17592186044416 :: real"
  let ?pos = "\<lparr>id' = 1, name = ''Apple'', currentPrice = Finite ?cp, riskLevel = ''Medium'',
           priceHistory = [Finite 211, Finite ?cp], quantity = 1 :: int32\<rparr>"
  let ?up1 = "\<lparr>balance = Finite 2789, ownedStocks = [UserOwnedStock_new ?s 1]\<rparr>"
  let ?up2 = "\<lparr>balance = Finite 2789, ownedStocks = [?pos]\<rparr>"
  have b: "buyStock (UserPortfolio_new (Finite 3000)) ?s 1 = (?up1, [])"
    by (simp add: buy_eval)
  have u: "updatePrices (\<lambda>k. 150) ?up1 = ?up2"
    by (simp add: updatePrices_def UserOwnedStock_new_eq SimulatedStock_new_def
        updatePrice_apple_150)
  have reach: "run (UserPortfolio_new (Finite 3000)) [BuyStock ?s 1, UpdatePrices (\<lambda>k. 150)]
      = ?up2"
    by (simp add: run_def b u)
  have inc: "dmul (double_of_int (sint (1 :: int32))) (Finite ?cp) = Finite ?cp"
  proof -
    have "dmul (Finite 1) (Finite ?cp) = Finite ?cp"
      by (simp only: dmul.simps mult_1, subst round_double_eval [of 7])
        (simp_all add: pow2_def round_half_even_def Let_def)
    then show ?thesis by (simp add: double_of_int_def)
  qed
  have sum: "dadd (Finite 2789) (Finite ?cp) = Finite (3310134731001037 / 1099511627776)"
    by (simp only: dadd.simps, subst round_double_eval [of 11])
      (simp_all add: pow2_def round_half_even_def Let_def)
  have "ownedStocks ?up2 = [] @ ?pos # []" and "name ?pos = ''Apple''"
    and "''Apple'' \<notin> name ` set []"
    by simp_all
  from sellStock_first [OF this, of 1]
  have s: "sellStock ?up2 ''Apple'' 1
      = (\<lparr>balance = Finite (3310134731001037 / 1099511627776), ownedStocks = []\<rparr>, [])"
    using inc sum by simp
  have ne: "(3310134731001037 / 1099511627776 :: real) \<noteq> 2789 + 1 * ?cp"
    by simp
  have "ownedStocks ?up1 = [] @ UserOwnedStock_new ?s 1 # []"
    and "name (UserOwnedStock_new ?s 1) = ''Apple''" and "''Apple'' \<notin> name ` set []"
    by (simp_all add: UserOwnedStock_new_eq SimulatedStock_new_def)
  from sellStock_first [OF this, of "- 2147483648"]
  have "map (\<lambda>st. sint (quantity st)) (ownedStocks (fst (sellStock ?up1 ''Apple'' (- 2147483648))))
      = [- 2147483647]"
    by (simp add: UserOwnedStock_new_eq SimulatedStock_new_def)
  then have w: "map (\<lambda>st. sint (quantity st)) (ownedStocks (run (UserPortfolio_new (Finite 3000))
        [BuyStock ?s 1, SellStock ''Apple'' (- 2147483648)])) = [- 2147483647]"
    by (simp add: run_def b)
  have d: "sint (1 :: int32) - sint (- 2147483648 :: int32) = 2147483649" by simp
  show ?thesis using reach s ne w d by blast
qed

text \<open>
  Claim C3, as the program has it. The position of name \<open>n\<close> is the one the loop
  finds, the first of that name in the vector: \<open>st\<close>, between the positions \<open>xs\<close> before
  it and \<open>ys\<close> after it (in a portfolio that a run reaches the names are distinct, claim
  C10, so it is the only one). If \<open>q \<le> Q\<close>, as signed 32-bit numbers, \<^verbatim>\<open>sellStock(n, q)\<close>
  writes no message, sets the balance to the \<^verbatim>\<open>double\<close> sum of the balance and the
  \<^verbatim>\<open>double\<close> product of \<open>q\<close> and the price, and sets the quantity to \<open>Q - q\<close> in 32-bit
  arithmetic; the position is removed if and only if that is 0, and no other position
  changes. If \<open>q > Q\<close> the portfolio is unchanged and a message is written.
\<close>

theorem sellStock_spec:
  assumes "ownedStocks up = xs @ st # ys" and "name st = n" and "n \<notin> name ` set xs"
  shows "(sint q \<le> sint (quantity st) \<longrightarrow>
            sellStock up n q =
              (up\<lparr>balance := dadd (balance up)
                                  (dmul (double_of_int (sint q)) (currentPrice st)),
                  ownedStocks := (if quantity st - q = 0 then xs @ ys
                                  else xs @ st\<lparr>quantity := quantity st - q\<rparr> # ys)\<rparr>, []))
       \<and> (sint q > sint (quantity st) \<longrightarrow>
            sellStock up n q = (up, [''Not enough quantity.'' @ endl]))"
  by (simp add: sellStock_first [OF assms])

text \<open>
  A portfolio with 4 Google and 2 Apple: selling 2 Apple removes the position, selling 1
  keeps it with quantity 1, selling 3 is refused.
\<close>

theorem sellStock_spec_witness:
  "sellStock \<lparr>balance = Finite 2578, ownedStocks =
       [UserOwnedStock_new (SimulatedStock_new 2 ''Google'' (Finite 165) ''Medium'') 4,
        UserOwnedStock_new (SimulatedStock_new 1 ''Apple'' (Finite 211) ''Medium'') 2]\<rparr>
      ''Apple'' 2
     = (\<lparr>balance = Finite 3000, ownedStocks =
       [UserOwnedStock_new (SimulatedStock_new 2 ''Google'' (Finite 165) ''Medium'') 4]\<rparr>, [])
   \<and> sellStock \<lparr>balance = Finite 2578, ownedStocks =
       [UserOwnedStock_new (SimulatedStock_new 2 ''Google'' (Finite 165) ''Medium'') 4,
        UserOwnedStock_new (SimulatedStock_new 1 ''Apple'' (Finite 211) ''Medium'') 2]\<rparr>
      ''Apple'' 1
     = (\<lparr>balance = Finite 2789, ownedStocks =
       [UserOwnedStock_new (SimulatedStock_new 2 ''Google'' (Finite 165) ''Medium'') 4,
        UserOwnedStock_new (SimulatedStock_new 1 ''Apple'' (Finite 211) ''Medium'') 1]\<rparr>, [])
   \<and> sellStock \<lparr>balance = Finite 2578, ownedStocks =
       [UserOwnedStock_new (SimulatedStock_new 2 ''Google'' (Finite 165) ''Medium'') 4,
        UserOwnedStock_new (SimulatedStock_new 1 ''Apple'' (Finite 211) ''Medium'') 2]\<rparr>
      ''Apple'' 3
     = (\<lparr>balance = Finite 2578, ownedStocks =
       [UserOwnedStock_new (SimulatedStock_new 2 ''Google'' (Finite 165) ''Medium'') 4,
        UserOwnedStock_new (SimulatedStock_new 1 ''Apple'' (Finite 211) ''Medium'') 2]\<rparr>,
        [''Not enough quantity.'' @ endl])"
proof -
  let ?g = "UserOwnedStock_new (SimulatedStock_new 2 ''Google'' (Finite 165) ''Medium'') 4"
  let ?a = "UserOwnedStock_new (SimulatedStock_new 1 ''Apple'' (Finite 211) ''Medium'') 2"
  let ?up = "\<lparr>balance = Finite 2578, ownedStocks = [?g, ?a]\<rparr>"
  have a: "name ?a = ''Apple''" "currentPrice ?a = Finite 211" "quantity ?a = 2"
    and g: "name ?g = ''Google''"
    by (simp_all add: UserOwnedStock_new_eq SimulatedStock_new_def)
  have h1: "ownedStocks ?up = [?g] @ ?a # []" by simp
  have h3: "''Apple'' \<notin> name ` set [?g]" by (simp add: g)
  note spec = sellStock_spec [OF h1 a(1) h3]
  have c1: "sellStock ?up ''Apple'' 2 = (\<lparr>balance = Finite 3000, ownedStocks = [?g]\<rparr>, [])"
    using spec [of 2] by (simp add: a double_of_int_def)
  have c2: "sellStock ?up ''Apple'' 1 =
      (\<lparr>balance = Finite 2789, ownedStocks =
         [?g, UserOwnedStock_new (SimulatedStock_new 1 ''Apple'' (Finite 211) ''Medium'') 1]\<rparr>,
       [])"
    using spec [of 1] by (simp add: a double_of_int_def) (simp add: UserOwnedStock_new_eq)
  have c3: "sellStock ?up ''Apple'' 3 = (?up, [''Not enough quantity.'' @ endl])"
    using spec [of 3] by (simp add: a)
  show ?thesis using c1 c2 c3 by blast
qed




text \<open>
  Claim C5. After exactly N calls of \<^verbatim>\<open>updatePrice\<close> since construction (one value of
  \<^verbatim>\<open>rand()\<close> per call, the list \<open>rvs\<close> of length N), the price history of the stock has
  length N + 1: the constructor seeds it with the initial price and every call appends
  one price. This holds for a stock of the market and for a position of the portfolio,
  whose constructor starts a history of its own.
\<close>

theorem history_length_after_updates:
  "length (priceHistory (fold updatePrice rvs (SimulatedStock_new i n price risk)))
     = length rvs + 1
   \<and> length (priceHistory (fold updatePrice rvs (UserOwnedStock_new base qty)))
     = length rvs + 1"
  by (simp add: length_history_fold SimulatedStock_new_def UserOwnedStock_new_eq)

text \<open>
  Claim C6, as stated. One call of \<^verbatim>\<open>updatePrice\<close>, given the integer \<open>r\<close> between
  \<open>- 100\<close> and 100, sets the new price to the old price plus \<open>r / 100 * v\<close> times the
  old price, clamped below at 1.0, where \<open>v\<close> is 0.20 for the risk level High, 0.10 for
  Medium and 0.05 otherwise, and appends the new price to the history; nothing else
  changes and there is no failing case.

  With the arithmetic of real numbers the program does not compute this number. For
  Apple at 211.0 (Medium) and \<^verbatim>\<open>rand()\<close> = 150, so \<open>r = 50\<close>, the formula gives
  \<open>4431 / 20\<close>, that is 221.55; the program gives the double
  \<open>3897548818140365 / 17592186044416\<close>, which is near it and not equal to it.
\<close>

theorem updatePrice_exact_counterexample:
  "updatePrice 150 (SimulatedStock_new 1 ''Apple'' (Finite 211) ''Medium'')
     = \<lparr>id' = 1, name = ''Apple'',
        currentPrice = Finite (3897548818140365 / 17592186044416),
        riskLevel = ''Medium'',
        priceHistory = [Finite 211, Finite (3897548818140365 / 17592186044416)]\<rparr>
   \<and> int (150 mod 201) - 100 = 50
   \<and> max 1 (211 + 50 / 100 * 0.1 * 211) = (4431 / 20 :: real)
   \<and> (3897548818140365 / 17592186044416 :: real) \<noteq> 4431 / 20"
proof -
  let ?s = "SimulatedStock_new 1 ''Apple'' (Finite 211) ''Medium''"
  have "currentPrice ?s = Finite 211" and "riskLevel ?s = ''Medium''"
    by (simp_all add: SimulatedStock_new_def)
  then have "updatePrice 150 ?s =
     ?s\<lparr>currentPrice := Finite (3897548818140365 / 17592186044416),
        priceHistory := priceHistory ?s @ [Finite (3897548818140365 / 17592186044416)]\<rparr>"
    by (rule updatePrice_apple_150)
  then show ?thesis by (simp add: SimulatedStock_new_def)
qed

text \<open>
  Claim C6, as the program has it. One call of \<^verbatim>\<open>updatePrice\<close>, where \<^verbatim>\<open>rand()\<close>
  returns \<open>rv\<close>: the integer \<open>r = rv mod 201 - 100\<close> lies between \<open>- 100\<close> and 100. The
  new price is the value of \<^verbatim>\<open>old + r / 100.0 * v * old\<close> in \<^verbatim>\<open>double\<close> arithmetic, every
  operation rounded to the nearest double, where \<open>v\<close> is the double nearest to 0.2 for
  the risk level High, to 0.1 for Medium and to 0.05 for any other; a value below 1.0 is
  replaced by 1.0 (NaN is not below 1.0 and is kept). So the new price is never below
  1.0. It is appended to the history, and nothing else of the stock changes. The
  function has no failing case.

  The number of the formula is met up to rounding: when the old price is a number \<open>x\<close>
  between 1 and \<open>2 ^ 1022\<close>, the new price is a number at least 1 whose distance from
  \<open>x + r / 100 * v * x\<close> clamped below at 1, with \<open>v\<close> the decimal 0.2, 0.1 or 0.05 and the
  arithmetic of real numbers, is at most \<open>x / 2 ^ 51\<close>.
\<close>

theorem updatePrice_spec:
  "(let r = int (rv mod 201) - 100;
        v = (if riskLevel s = ''High'' then dlit 0.2
             else if riskLevel s = ''Medium'' then dlit 0.1 else dlit 0.05);
        p1 = dadd (currentPrice s)
               (dmul (dmul (ddiv (double_of_int r) (Finite 100)) v) (currentPrice s));
        p = (if dlt p1 (Finite 1) then Finite 1 else p1)
    in - 100 \<le> r \<and> r \<le> 100
       \<and> updatePrice rv s = s\<lparr>currentPrice := p, priceHistory := priceHistory s @ [p]\<rparr>
       \<and> \<not> dlt p (Finite 1))
   \<and> dlit 0.2 = Finite (3602879701896397 / 18014398509481984)
   \<and> dlit 0.1 = Finite (3602879701896397 / 36028797018963968)
   \<and> dlit 0.05 = Finite (3602879701896397 / 72057594037927936)
   \<and> (\<forall>x. currentPrice s = Finite x \<and> 1 \<le> x \<and> x \<le> 2 ^ 1022 \<longrightarrow>
         (\<exists>y. currentPrice (updatePrice rv s) = Finite y \<and> 1 \<le> y \<and>
            \<bar>y - max 1 (x + real_of_int (int (rv mod 201) - 100) / 100
                            * (if riskLevel s = ''High'' then 0.2
                               else if riskLevel s = ''Medium'' then 0.1 else 0.05) * x)\<bar>
              \<le> x / 2 ^ 51))"
proof -
  have "rv mod 201 < 201" by simp
  then have "int (rv mod 201) - 100 \<le> 100" by linarith
  moreover have "- 100 \<le> int (rv mod 201) - 100" by simp
  ultimately have A: "(let r = int (rv mod 201) - 100;
        v = (if riskLevel s = ''High'' then dlit 0.2
             else if riskLevel s = ''Medium'' then dlit 0.1 else dlit 0.05);
        p1 = dadd (currentPrice s)
               (dmul (dmul (ddiv (double_of_int r) (Finite 100)) v) (currentPrice s));
        p = (if dlt p1 (Finite 1) then Finite 1 else p1)
    in - 100 \<le> r \<and> r \<le> 100
       \<and> updatePrice rv s = s\<lparr>currentPrice := p, priceHistory := priceHistory s @ [p]\<rparr>
       \<and> \<not> dlt p (Finite 1))"
    by (simp add: updatePrice_def volatility_of_def Let_def double_of_int_def dlit_100)
  have B: "\<forall>x. currentPrice s = Finite x \<and> 1 \<le> x \<and> x \<le> 2 ^ 1022 \<longrightarrow>
         (\<exists>y. currentPrice (updatePrice rv s) = Finite y \<and> 1 \<le> y \<and>
            \<bar>y - max 1 (x + real_of_int (int (rv mod 201) - 100) / 100
                            * (if riskLevel s = ''High'' then 0.2
                               else if riskLevel s = ''Medium'' then 0.1 else 0.05) * x)\<bar>
              \<le> x / 2 ^ 51)"
    using updatePrice_error [of s _ rv] by blast
  from A dlit_0_2 dlit_0_1 dlit_0_05 B show ?thesis by (intro conjI)
qed

text \<open>
  Apple at 211.0 (Medium) with \<^verbatim>\<open>rand()\<close> = 150: the new price is the double written
  221.55, within \<open>211 / 2 ^ 51\<close> of \<open>4431 / 20\<close>.
\<close>

theorem updatePrice_spec_witness:
  "currentPrice (SimulatedStock_new 1 ''Apple'' (Finite 211) ''Medium'') = Finite 211
   \<and> (1 :: real) \<le> 211 \<and> (211 :: real) \<le> 2 ^ 1022
   \<and> currentPrice (updatePrice 150 (SimulatedStock_new 1 ''Apple'' (Finite 211) ''Medium''))
       = Finite (3897548818140365 / 17592186044416)
   \<and> (1 :: real) \<le> 3897548818140365 / 17592186044416
   \<and> \<bar>3897548818140365 / 17592186044416 - (4431 / 20 :: real)\<bar> \<le> 211 / 2 ^ 51
   \<and> max 1 (211 + real_of_int (int (150 mod 201) - 100) / 100 * 0.1 * 211) = (4431 / 20 :: real)"
proof -
  let ?s = "SimulatedStock_new 1 ''Apple'' (Finite 211) ''Medium''"
  have h: "currentPrice ?s = Finite 211 \<and> (1 :: real) \<le> 211 \<and> (211 :: real) \<le> 2 ^ 1022"
    by (simp add: SimulatedStock_new_def)
  have rl: "riskLevel ?s = ''Medium''" by (simp add: SimulatedStock_new_def)
  from updatePrice_spec [of 150 ?s] have
    "\<forall>x. currentPrice ?s = Finite x \<and> 1 \<le> x \<and> x \<le> 2 ^ 1022 \<longrightarrow>
         (\<exists>y. currentPrice (updatePrice 150 ?s) = Finite y \<and> 1 \<le> y \<and>
            \<bar>y - max 1 (x + real_of_int (int (150 mod 201) - 100) / 100
                            * (if riskLevel ?s = ''High'' then 0.2
                               else if riskLevel ?s = ''Medium'' then 0.1 else 0.05) * x)\<bar>
              \<le> x / 2 ^ 51)"
    by (elim conjE)
  with h obtain y where y: "currentPrice (updatePrice 150 ?s) = Finite y" "1 \<le> y"
    and e: "\<bar>y - max 1 (211 + real_of_int (int (150 mod 201) - 100) / 100
                            * (if riskLevel ?s = ''High'' then 0.2
                               else if riskLevel ?s = ''Medium'' then 0.1 else 0.05) * 211)\<bar>
              \<le> 211 / 2 ^ 51"
    by blast
  have m: "max 1 (211 + real_of_int (int (150 mod 201) - 100) / 100 * 0.1 * 211) = (4431 / 20 :: real)"
    by simp
  have "currentPrice (updatePrice 150 ?s) = Finite (3897548818140365 / 17592186044416)"
    using updatePrice_apple_150 [of ?s] by (simp add: SimulatedStock_new_def)
  with y have yv: "y = 3897548818140365 / 17592186044416" by simp
  from e have "\<bar>y - (4431 / 20 :: real)\<bar> \<le> 211 / 2 ^ 51"
    by (simp add: rl)
  with y h m show ?thesis unfolding yv by (intro conjI) simp_all
qed

text \<open>
  Claim C7. For every portfolio in which no position has the name \<open>n\<close>, and every
  quantity \<open>q\<close>, \<^verbatim>\<open>sellStock(n, q)\<close> leaves the balance and all positions unchanged and
  writes a message.
\<close>

theorem sellStock_unknown_name:
  "n \<notin> name ` set (ownedStocks up) \<Longrightarrow>
   sellStock up n q = (up, [''Stock not found in portfolio.'' @ endl])"
  by (rule sellStock_absent)

theorem sellStock_unknown_name_witness:
  "''Google'' \<notin> name ` set (ownedStocks \<lparr>balance = Finite 2578, ownedStocks =
       [UserOwnedStock_new (SimulatedStock_new 1 ''Apple'' (Finite 211) ''Medium'') 2]\<rparr>)
   \<and> sellStock \<lparr>balance = Finite 2578, ownedStocks =
       [UserOwnedStock_new (SimulatedStock_new 1 ''Apple'' (Finite 211) ''Medium'') 2]\<rparr>
        ''Google'' 1
     = (\<lparr>balance = Finite 2578, ownedStocks =
       [UserOwnedStock_new (SimulatedStock_new 1 ''Apple'' (Finite 211) ''Medium'') 2]\<rparr>,
        [''Stock not found in portfolio.'' @ endl])"
proof -
  let ?up = "\<lparr>balance = Finite 2578, ownedStocks =
       [UserOwnedStock_new (SimulatedStock_new 1 ''Apple'' (Finite 211) ''Medium'') 2]\<rparr>"
  have h: "''Google'' \<notin> name ` set (ownedStocks ?up)"
    by (simp add: UserOwnedStock_new_eq SimulatedStock_new_def)
  from sellStock_unknown_name [OF h, of 1] h show ?thesis by blast
qed

text \<open>
  Claim C8. In the buy branch of the menu, for every \<^verbatim>\<open>int\<close> entered as id: the market
  is subscripted, at index \<open>id - 1\<close> and inside its bounds, and a purchase of that stock
  is attempted, if and only if \<open>1 \<le> id \<le> marketSize\<close>; for every other id the invalid-id
  message is written, the market is not subscripted, and the portfolio is unchanged.
  In both cases the branch returns, so it never reads the market outside its bounds.
\<close>

theorem main_case2_spec:
  assumes "is_int ident"
  shows "(1 \<le> ident \<and> ident \<le> int (length market) \<longrightarrow>
            nat (ident - 1) < length market \<and>
            main_case2 market user ident qty =
              Some (fst (buyStock user (market ! nat (ident - 1)) qty),
                    snd (buyStock user (market ! nat (ident - 1)) qty),
                    [nat (ident - 1)]))
       \<and> (\<not> (1 \<le> ident \<and> ident \<le> int (length market)) \<longrightarrow>
            main_case2 market user ident qty = Some (user, [''Invalid ID.'' @ endl], []))"
proof (cases "1 \<le> ident")
  case False
  then show ?thesis by (simp add: main_case2_def)
next
  case True
  have a: "to_size_t ident = nat ident"
    using True assms by (simp add: to_size_t_nonneg)
  have "is_int (ident - 1)" using True assms by (simp add: is_int_def)
  then have b: "to_size_t (ident - 1) = nat (ident - 1)"
    using True by (simp add: to_size_t_nonneg)
  show ?thesis
  proof (cases "ident \<le> int (length market)")
    case le: True
    then have "nat (ident - 1) < length market" using True by linarith
    then show ?thesis
      using True le by (simp add: main_case2_def a b vector_at_def split: prod.split)
  next
    case gt: False
    then have "\<not> nat ident \<le> length market" by linarith
    then show ?thesis using True gt by (simp add: main_case2_def a)
  qed
qed

text \<open>
  The market of \<^verbatim>\<open>main\<close> has nine stocks: id 9 buys META at index 8; the ids 10, 0 and
  \<open>- 3\<close> are refused.
\<close>

theorem main_case2_spec_witness:
  "is_int 9 \<and> is_int 10 \<and> is_int 0 \<and> is_int (- 3)
   \<and> main_case2 market0 (UserPortfolio_new (Finite 3000)) 9 1 =
       Some (\<lparr>balance = Finite 2357, ownedStocks =
               [UserOwnedStock_new (SimulatedStock_new 9 ''META'' (Finite 643) ''High'') 1]\<rparr>,
             [], [8])
   \<and> main_case2 market0 (UserPortfolio_new (Finite 3000)) 10 1 =
       Some (UserPortfolio_new (Finite 3000), [''Invalid ID.'' @ endl], [])
   \<and> main_case2 market0 (UserPortfolio_new (Finite 3000)) 0 1 =
       Some (UserPortfolio_new (Finite 3000), [''Invalid ID.'' @ endl], [])
   \<and> main_case2 market0 (UserPortfolio_new (Finite 3000)) (- 3) 1 =
       Some (UserPortfolio_new (Finite 3000), [''Invalid ID.'' @ endl], [])"
proof -
  let ?up = "UserPortfolio_new (Finite 3000)"
  have i: "is_int 9" "is_int 10" "is_int 0" "is_int (- 3)" by (simp_all add: is_int_def)
  have len: "length market0 = 9" by (simp add: market0_def)
  have m8: "market0 ! 8 = SimulatedStock_new 9 ''META'' (Finite 643) ''High''"
    by (simp add: market0_def)
  have b: "buyStock ?up (SimulatedStock_new 9 ''META'' (Finite 643) ''High'') 1 =
     (\<lparr>balance = Finite 2357, ownedStocks =
               [UserOwnedStock_new (SimulatedStock_new 9 ''META'' (Finite 643) ''High'') 1]\<rparr>,
      [])"
    by (simp add: buy_eval)
  have c1: "main_case2 market0 ?up 9 1 =
       Some (\<lparr>balance = Finite 2357, ownedStocks =
               [UserOwnedStock_new (SimulatedStock_new 9 ''META'' (Finite 643) ''High'') 1]\<rparr>,
             [], [8])"
    using main_case2_spec [OF i(1), of market0 ?up 1] by (simp add: len m8 b)
  have c2: "main_case2 market0 ?up 10 1 = Some (?up, [''Invalid ID.'' @ endl], [])"
    using main_case2_spec [OF i(2), of market0 ?up 1] by (simp add: len)
  have c3: "main_case2 market0 ?up 0 1 = Some (?up, [''Invalid ID.'' @ endl], [])"
    using main_case2_spec [OF i(3), of market0 ?up 1] by (simp add: len)
  have c4: "main_case2 market0 ?up (- 3) 1 = Some (?up, [''Invalid ID.'' @ endl], [])"
    using main_case2_spec [OF i(4), of market0 ?up 1] by (simp add: len)
  show ?thesis using i c1 c2 c3 c4 by blast
qed

text \<open>
  Claim C9, as stated. \<^verbatim>\<open>buyStock\<close> has no lower bound on the quantity: for every
  stock of price \<open>p > 0\<close> and every negative quantity \<open>q\<close>, the insufficient-balance
  check does not trigger, since \<open>p * q < 0 \<le> balance\<close>; the purchase is accepted, the
  balance grows by \<open>p * \<bar>q\<bar>\<close>, and when no position of that name exists a new
  position with the negative quantity \<open>q\<close> is created.

  The balance is not always at least 0: \<^verbatim>\<open>sellStock\<close> does not check the sign of the
  quantity either, and selling \<open>- 100\<close> shares of an owned stock debits the balance. In
  the portfolio of \<^verbatim>\<open>main\<close>, after buying 1 Apple and selling \<open>- 100\<close> Apple the balance
  is \<open>- 18311\<close>, and a purchase of \<open>- 1\<close> Apple is refused: its total \<open>- 211\<close> is above
  the balance.

  Nor does an accepted purchase always raise the balance by \<open>p * \<bar>q\<bar>\<close>: at the balance
  \<open>2 ^ 53 = 9007199254740992\<close>, buying \<open>- 1\<close> share of a stock of price 1.0 is accepted
  and leaves the balance where it was, since \<open>2 ^ 53 + 1\<close> is not a double and is rounded
  to \<open>2 ^ 53\<close>.
\<close>

theorem buyStock_negative_balance_counterexample:
  "run (UserPortfolio_new (Finite 3000))
     [BuyStock (SimulatedStock_new 1 ''Apple'' (Finite 211) ''Medium'') 1,
      SellStock ''Apple'' (- 100)]
     = \<lparr>balance = Finite (- 18311), ownedStocks =
          [UserOwnedStock_new (SimulatedStock_new 1 ''Apple'' (Finite 211) ''Medium'') 101]\<rparr>
   \<and> dlt (Finite 0) (currentPrice (SimulatedStock_new 1 ''Apple'' (Finite 211) ''Medium''))
   \<and> sint (- 1 :: int32) < 0
   \<and> buyStock \<lparr>balance = Finite (- 18311), ownedStocks =
          [UserOwnedStock_new (SimulatedStock_new 1 ''Apple'' (Finite 211) ''Medium'') 101]\<rparr>
        (SimulatedStock_new 1 ''Apple'' (Finite 211) ''Medium'') (- 1)
     = (\<lparr>balance = Finite (- 18311), ownedStocks =
          [UserOwnedStock_new (SimulatedStock_new 1 ''Apple'' (Finite 211) ''Medium'') 101]\<rparr>,
        [''Insufficient balance.'' @ endl])
   \<and> buyStock (UserPortfolio_new (Finite 9007199254740992))
        (SimulatedStock_new 7 ''Penny'' (Finite 1) ''Low'') (- 1)
     = (\<lparr>balance = Finite 9007199254740992, ownedStocks =
          [UserOwnedStock_new (SimulatedStock_new 7 ''Penny'' (Finite 1) ''Low'') (- 1)]\<rparr>,
        [])"
proof -
  let ?s = "SimulatedStock_new 1 ''Apple'' (Finite 211) ''Medium''"
  let ?up1 = "\<lparr>balance = Finite 2789, ownedStocks = [UserOwnedStock_new ?s 1]\<rparr>"
  let ?up2 = "\<lparr>balance = Finite (- 18311), ownedStocks = [UserOwnedStock_new ?s 101]\<rparr>"
  have b: "buyStock (UserPortfolio_new (Finite 3000)) ?s 1 = (?up1, [])"
    by (simp add: buy_eval)
  have "ownedStocks ?up1 = [] @ UserOwnedStock_new ?s 1 # []"
    and "name (UserOwnedStock_new ?s 1) = ''Apple''" and "''Apple'' \<notin> name ` set []"
    by (simp_all add: UserOwnedStock_new_eq SimulatedStock_new_def)
  from sellStock_first [OF this, of "- 100"]
  have s: "sellStock ?up1 ''Apple'' (- 100) = (?up2, [])"
    by (simp add: UserOwnedStock_new_eq SimulatedStock_new_def double_of_int_def)
  have r: "buyStock ?up2 ?s (- 1) = (?up2, [''Insufficient balance.'' @ endl])"
    by (simp add: buy_eval)
  have p: "dlt (Finite 0) (currentPrice ?s)" by (simp add: SimulatedStock_new_def)
  have q: "sint (- 1 :: int32) < 0" by simp
  have t: "buyStock (UserPortfolio_new (Finite 9007199254740992))
        (SimulatedStock_new 7 ''Penny'' (Finite 1) ''Low'') (- 1)
     = (\<lparr>balance = Finite 9007199254740992, ownedStocks =
          [UserOwnedStock_new (SimulatedStock_new 7 ''Penny'' (Finite 1) ''Low'') (- 1)]\<rparr>,
        [])"
    using round_double_tie by (simp add: buy_eval round_double_minus_1)
  show ?thesis using p q by (simp add: run_def b s r t)
qed

text \<open>
  Claim C9, as the program has it. For every stock of price \<open>p > 0\<close>, every negative
  quantity \<open>q\<close> and every portfolio whose balance is at least 0: the total, the
  \<^verbatim>\<open>double\<close> product of \<open>p\<close> and \<open>q\<close>, is at most 0, so the insufficient-balance check
  does not trigger; the purchase is accepted without a message, the new balance is the
  \<^verbatim>\<open>double\<close> sum of the balance and the product of \<open>p\<close> and \<open>\<bar>q\<bar>\<close>, and when no position
  of that name exists a new position with the negative quantity \<open>q\<close> is appended.
\<close>

theorem buyStock_negative_quantity:
  assumes "dlt (Finite 0) (currentPrice s)" and "sint q < 0" and "dge (balance up) (Finite 0)"
  shows "dle (dmul (currentPrice s) (double_of_int (sint q))) (Finite 0)
       \<and> \<not> dgt (dmul (currentPrice s) (double_of_int (sint q))) (balance up)
       \<and> snd (buyStock up s q) = []
       \<and> balance (fst (buyStock up s q))
           = dadd (balance up) (dmul (currentPrice s) (double_of_int \<bar>sint q\<bar>))
       \<and> (name s \<notin> name ` set (ownedStocks up) \<longrightarrow>
            ownedStocks (fst (buyStock up s q)) = ownedStocks up @ [UserOwnedStock_new s q]
            \<and> quantity (UserOwnedStock_new s q) = q)"
proof -
  let ?t = "dmul (currentPrice s) (double_of_int (sint q))"
  define y where "y = real_of_int (sint q)"
  have y: "y < 0" using assms(2) by (simp only: y_def of_int_less_0_iff)
  have t: "dmul a (double_of_int (sint q)) = dmul a (Finite y)" for a
    by (simp only: double_of_int_def y_def)
  have neg: "dle ?t (Finite 0)"
  proof (cases "currentPrice s")
    case (Finite p)
    with assms(1) have "0 < p" by simp
    then have "p * y < 0" using y by (rule mult_pos_neg)
    then have "dle (round_double (p * y)) (Finite 0)"
      by (intro round_double_nonpos less_imp_le)
    then show ?thesis by (simp only: t Finite dmul.simps)
  next
    case PosInf
    then show ?thesis using y by (simp add: t inf_of_sign_def)
  next
    case NegInf
    with assms(1) show ?thesis by simp
  next
    case NaN
    with assms(1) show ?thesis by simp
  qed
  have acc: "\<not> dlt (balance up) ?t"
    using neg assms(3) by (rule dle_dge_not_dlt)
  have chk: "\<not> dgt ?t (balance up)" using acc by (simp add: dgt_def)
  have out: "snd (buyStock up s q) = []" using acc by (rule buyStock_accepted)
  have "balance (fst (buyStock up s q)) = dsub (balance up) ?t"
    using acc by (rule buyStock_accepted)
  also have "\<dots> = dadd (balance up) (dmul (currentPrice s) (double_of_int \<bar>sint q\<bar>))"
  proof -
    have "\<bar>sint q\<bar> = - sint q" using assms(2) by simp
    then have "double_of_int \<bar>sint q\<bar> = Finite (- y)"
      by (simp only: double_of_int_def y_def of_int_minus)
    then show ?thesis by (simp only: dsub_def t dneg_dmul_right)
  qed
  finally have bal: "balance (fst (buyStock up s q))
      = dadd (balance up) (dmul (currentPrice s) (double_of_int \<bar>sint q\<bar>))" .
  have new: "name s \<notin> name ` set (ownedStocks up) \<longrightarrow>
        ownedStocks (fst (buyStock up s q)) = ownedStocks up @ [UserOwnedStock_new s q]
        \<and> quantity (UserOwnedStock_new s q) = q"
    using acc by (simp add: buyStock_new UserOwnedStock_new_eq)
  show ?thesis using neg chk out bal new by blast
qed

text \<open>Buying \<open>- 2\<close> Apple into the portfolio of \<^verbatim>\<open>main\<close>: the balance grows to 3422.\<close>

theorem buyStock_negative_quantity_witness:
  "dlt (Finite 0) (currentPrice (SimulatedStock_new 1 ''Apple'' (Finite 211) ''Medium''))
   \<and> sint (- 2 :: int32) < 0
   \<and> dge (balance (UserPortfolio_new (Finite 3000))) (Finite 0)
   \<and> name (SimulatedStock_new 1 ''Apple'' (Finite 211) ''Medium'')
        \<notin> name ` set (ownedStocks (UserPortfolio_new (Finite 3000)))
   \<and> buyStock (UserPortfolio_new (Finite 3000))
        (SimulatedStock_new 1 ''Apple'' (Finite 211) ''Medium'') (- 2) =
       (\<lparr>balance = Finite 3422, ownedStocks =
          [UserOwnedStock_new (SimulatedStock_new 1 ''Apple'' (Finite 211) ''Medium'') (- 2)]\<rparr>,
        [])"
proof -
  let ?s = "SimulatedStock_new 1 ''Apple'' (Finite 211) ''Medium''"
  let ?up = "UserPortfolio_new (Finite 3000)"
  have p: "currentPrice ?s = Finite 211" by (simp add: SimulatedStock_new_def)
  have u: "balance ?up = Finite 3000" "ownedStocks ?up = []"
    by (simp_all add: UserPortfolio_new_def)
  have h1: "dlt (Finite 0) (currentPrice ?s)" by (simp add: p)
  have h2: "sint (- 2 :: int32) < 0" by simp
  have h3: "dge (balance ?up) (Finite 0)" by (simp add: u dge_def)
  have h4: "name ?s \<notin> name ` set (ownedStocks ?up)" by (simp add: u)
  from buyStock_negative_quantity [OF h1 h2 h3] h4
  have "snd (buyStock ?up ?s (- 2)) = []"
    and "balance (fst (buyStock ?up ?s (- 2)))
           = dadd (balance ?up) (dmul (currentPrice ?s) (double_of_int \<bar>sint (- 2 :: int32)\<bar>))"
    and "ownedStocks (fst (buyStock ?up ?s (- 2)))
           = ownedStocks ?up @ [UserOwnedStock_new ?s (- 2)]"
    by blast+
  then have "buyStock ?up ?s (- 2) =
      (\<lparr>balance = Finite 3422, ownedStocks = [UserOwnedStock_new ?s (- 2)]\<rparr>, [])"
    by (cases "buyStock ?up ?s (- 2)") (simp add: p u double_of_int_def)
  with h1 h2 h3 h4 show ?thesis by blast
qed

text \<open>
  Claim C10. In every portfolio that a run of \<^verbatim>\<open>buyStock\<close>, \<^verbatim>\<open>sellStock\<close> and
  \<^verbatim>\<open>updatePrices\<close> calls reaches from a newly constructed (empty) portfolio, the names
  of the positions are pairwise distinct.
\<close>

theorem names_distinct:
  "distinct (map name (ownedStocks (run (UserPortfolio_new b) ops)))"
  by (rule distinct_run) (simp add: UserPortfolio_new_def)

end
